theory Spec2Isabelle
  imports Complex_Main
begin

section \<open>The relational store of the task marketplace\<close>

text \<open>
  The backend keeps four tables (\<^verbatim>\<open>users\<close>, \<^verbatim>\<open>projects\<close>, \<^verbatim>\<open>tasks\<close>,
  \<^verbatim>\<open>notifications\<close>) behind SQLAlchemy models (\<^verbatim>\<open>app/models/*.py\<close>). A row is a record
  with the columns of its model. Identifiers are UUID values; the string that a path or
  query parameter carries is the text of such a value, and the model starts from the value.
  \<^verbatim>\<open>Float\<close> columns hold the finite values of a Python float, which are stored and
  returned and never computed with. A \<^verbatim>\<open>datetime\<close> is an instant, given as the number
  of microseconds since 0001-01-01T00:00:00 UTC. A string is the list of the bytes of
  its UTF-8 text.
  The columns \<^verbatim>\<open>created_at\<close> and \<^verbatim>\<open>updated_at\<close> are written by the database server
  (\<^verbatim>\<open>server_default=func.now()\<close>, \<^verbatim>\<open>onupdate=func.now()\<close>) from its clock; no endpoint
  reads or writes them and they are left out of the rows.

  A mapped attribute of a Python object can hold \<^verbatim>\<open>None\<close> whatever the column declares, so
  every attribute that an endpoint can assign is an option here. The declarations
  \<^verbatim>\<open>nullable=False\<close>, \<^verbatim>\<open>ForeignKey\<close> and \<^verbatim>\<open>primary_key=True\<close> are constraints that
  the store checks when a unit of work is flushed, and so are the types of the columns:
  an \<^verbatim>\<open>Integer\<close> column holds a 32-bit integer, a \<^verbatim>\<open>String\<close> or \<^verbatim>\<open>Text\<close> column a
  text without the character NUL, and a \<^verbatim>\<open>DateTime\<close> column an instant of the years
  1 to 9999 (\<open>apply_write\<close> below).

  A table is the list of its rows in the order in which a query without ORDER BY returns
  them. SQL leaves that order open; here a new row goes to the end and an updated row
  keeps its place.
\<close>

type_synonym uuid = nat
type_synonym float = real
type_synonym datetime = int

subsection \<open>Request schemas (\<^verbatim>\<open>app/schemas/*.py\<close>)\<close>

text \<open>
  \<^verbatim>\<open>class TaskCreate(TaskBase)\<close> after validation: every field has a value, and a field
  declared \<^verbatim>\<open>Optional\<close> may be \<^verbatim>\<open>None\<close>.
\<close>

record TaskCreate =
  title :: string
  description :: string
  weight :: int
  payout :: float
  deadline :: "datetime option"
  pricing_type :: string
  hourly_rate :: "float option"
  estimated_hours :: "int option"
  required_skills :: "string list option"
  auto_assign :: bool
  application_window_minutes :: int
  project_id :: uuid

text \<open>
  The body of \<^verbatim>\<open>POST /tasks\<close> as the client sends it: a field that the schema gives a
  default may be absent (\<open>None\<close>). For a field that is also \<^verbatim>\<open>Optional\<close> the value that
  is present may be \<^verbatim>\<open>null\<close> (\<open>Some None\<close>).
\<close>

record TaskCreate_body =
  title :: string
  description :: string
  weight :: "int option"
  payout :: float
  deadline :: "datetime option option"
  pricing_type :: "string option"
  hourly_rate :: "float option option"
  estimated_hours :: "int option option"
  required_skills :: "string list option option"
  auto_assign :: "bool option"
  application_window_minutes :: "int option"
  project_id :: uuid

text \<open>The value of a field: the one sent, or the default of the schema.\<close>

definition field_default :: "'a \<Rightarrow> 'a option \<Rightarrow> 'a" where
  "field_default dflt v = (case v of None \<Rightarrow> dflt | Some x \<Rightarrow> x)"

text \<open>The defaults of \<^verbatim>\<open>class TaskBase\<close>.\<close>

definition TaskCreate_of_body :: "TaskCreate_body \<Rightarrow> TaskCreate" where
  "TaskCreate_of_body b =
     \<lparr> TaskCreate.title = TaskCreate_body.title b,
       TaskCreate.description = TaskCreate_body.description b,
       TaskCreate.weight = field_default 1 (TaskCreate_body.weight b),
       TaskCreate.payout = TaskCreate_body.payout b,
       TaskCreate.deadline = field_default None (TaskCreate_body.deadline b),
       TaskCreate.pricing_type = field_default ''fixed'' (TaskCreate_body.pricing_type b),
       TaskCreate.hourly_rate = field_default None (TaskCreate_body.hourly_rate b),
       TaskCreate.estimated_hours = field_default None (TaskCreate_body.estimated_hours b),
       TaskCreate.required_skills = field_default (Some []) (TaskCreate_body.required_skills b),
       TaskCreate.auto_assign = field_default False (TaskCreate_body.auto_assign b),
       TaskCreate.application_window_minutes =
         field_default 60 (TaskCreate_body.application_window_minutes b),
       TaskCreate.project_id = TaskCreate_body.project_id b \<rparr>"

text \<open>
  \<^verbatim>\<open>class TaskUpdate(BaseModel)\<close> and \<^verbatim>\<open>class ProjectUpdate(BaseModel)\<close>: every field is
  \<^verbatim>\<open>Optional[...] = None\<close>. A field is unset (\<open>None\<close>), set to \<^verbatim>\<open>null\<close> (\<open>Some None\<close>) or
  set to a value (\<open>Some (Some v)\<close>); \<^verbatim>\<open>dict(exclude_unset=True)\<close> tells the first from
  the other two.
\<close>

record TaskUpdate =
  title :: "string option option"
  description :: "string option option"
  weight :: "int option option"
  payout :: "float option option"
  deadline :: "datetime option option"
  status :: "string option option"
  assignee_id :: "uuid option option"
  pricing_type :: "string option option"
  hourly_rate :: "float option option"
  estimated_hours :: "int option option"
  required_skills :: "string list option option"
  auto_assign :: "bool option option"

record ProjectUpdate =
  title :: "string option option"
  description :: "string option option"
  tags :: "string list option option"
  budget :: "float option option"
  status :: "string option option"

subsection \<open>Models (\<^verbatim>\<open>app/models/*.py\<close>)\<close>

text \<open>
  \<^verbatim>\<open>class User(Base)\<close>. The endpoints read \<^verbatim>\<open>id\<close> and \<^verbatim>\<open>role\<close> of the acting user;
  \<^verbatim>\<open>email\<close> stands for the profile columns, which they never look at. The field
  \<^verbatim>\<open>id\<close> of every model is called \<open>id'\<close>.
\<close>

record user =
  id' :: uuid
  email :: string
  role :: string

text \<open>\<^verbatim>\<open>class Project(Base)\<close>.\<close>

record project =
  id' :: uuid
  client_id :: uuid
  title :: "string option"
  description :: "string option"
  tags :: "string list option"
  budget :: "float option"
  status :: "string option"

text \<open>\<^verbatim>\<open>class Task(Base)\<close>.\<close>

record task =
  id' :: uuid
  project_id :: uuid
  title :: "string option"
  description :: "string option"
  weight :: "int option"
  assignee_id :: "uuid option"
  status :: "string option"
  payout :: "float option"
  deadline :: "datetime option"
  pricing_type :: "string option"
  hourly_rate :: "float option"
  estimated_hours :: "int option"
  required_skills :: "string list option"
  auto_assign :: "bool option"
  application_window_minutes :: "int option"

text \<open>\<^verbatim>\<open>class Notification(Base)\<close>; the column \<^verbatim>\<open>type\<close> is called \<open>type'\<close>.\<close>

record notification =
  id' :: uuid
  user_id :: uuid
  title :: string
  message :: string
  type' :: "string option"
  read :: "bool option"

record db =
  users :: "user list"
  projects :: "project list"
  tasks :: "task list"
  notifications :: "notification list"

subsection \<open>Errors\<close>

text \<open>
  \<open>HTTPException\<close> carries the status code and the detail string of the source's
  \<^verbatim>\<open>raise HTTPException(...)\<close>. The other constructors are the exceptions that the
  library calls of the endpoints raise and that no endpoint catches.
\<close>

datatype error =
    HTTPException nat string
  | MultipleResultsFound
  | IntegrityError
  | InvalidRequestError
  | AttributeError
  | DBAPIError

subsection \<open>Queries\<close>

text \<open>\<^verbatim>\<open>Result.scalar_one_or_none()\<close>: no row, the one row, or an exception.\<close>

fun scalar_one_or_none :: "'a list \<Rightarrow> error + 'a option" where
  "scalar_one_or_none [] = Inr None"
| "scalar_one_or_none [x] = Inr (Some x)"
| "scalar_one_or_none (x # y # zs) = Inl MultipleResultsFound"

text \<open>\<^verbatim>\<open>select(Project).where(Project.id == project_id)\<close> and its siblings.\<close>

definition select_project :: "db \<Rightarrow> uuid \<Rightarrow> project list" where
  "select_project d pid = filter (\<lambda>p. project.id' p = pid) (projects d)"

definition select_task :: "db \<Rightarrow> uuid \<Rightarrow> task list" where
  "select_task d task_id = filter (\<lambda>t. task.id' t = task_id) (tasks d)"

text \<open>
  The many-to-one relationship \<^verbatim>\<open>Task.project\<close>, loaded with
  \<^verbatim>\<open>selectinload(Task.project)\<close>: the project the foreign key points to, or \<^verbatim>\<open>None\<close>.
\<close>

definition task_project :: "db \<Rightarrow> task \<Rightarrow> project option" where
  "task_project d t = find (\<lambda>p. project.id' p = project_id t) (projects d)"

text \<open>The one-to-many relationship \<^verbatim>\<open>Project.tasks\<close>.\<close>

definition project_tasks :: "db \<Rightarrow> project \<Rightarrow> task list" where
  "project_tasks d p = filter (\<lambda>t. project_id t = project.id' p) (tasks d)"

subsection \<open>The unit of work\<close>

text \<open>
  A session collects the changes of one request and \<^verbatim>\<open>commit()\<close> flushes them to the
  store in one transaction. The constraints of the models are checked row by row as the
  statements run; the first violation raises \<^verbatim>\<open>IntegrityError\<close> and the transaction is
  rolled back, so a failed commit leaves the store as it was.
\<close>

text \<open>
  What the column types admit. PostgreSQL refuses the character NUL in a text and a
  value outside the 32-bit range in an \<^verbatim>\<open>Integer\<close> column, and an instant whose UTC
  date lies outside the years 1 to 9999 cannot be sent as a \<^verbatim>\<open>datetime\<close>; the statement
  fails with \<^verbatim>\<open>DBAPIError\<close>. \<^verbatim>\<open>NULL\<close> passes every type.
\<close>

definition text_ok :: "string \<Rightarrow> bool" where
  "text_ok s \<longleftrightarrow> CHR 0x00 \<notin> set s"

definition int32_ok :: "int \<Rightarrow> bool" where
  "int32_ok i \<longleftrightarrow> - 2147483648 \<le> i \<and> i \<le> 2147483647"

definition datetime_ok :: "datetime \<Rightarrow> bool" where
  "datetime_ok i \<longleftrightarrow> 0 \<le> i \<and> i < 315537897600000000"

fun column_ok :: "('a \<Rightarrow> bool) \<Rightarrow> 'a option \<Rightarrow> bool" where
  "column_ok P None = True"
| "column_ok P (Some x) = P x"

definition project_types_ok :: "project \<Rightarrow> bool" where
  "project_types_ok p \<longleftrightarrow>
     column_ok text_ok (project.title p) \<and>
     column_ok text_ok (project.description p) \<and>
     column_ok (list_all text_ok) (project.tags p) \<and>
     column_ok text_ok (project.status p)"

definition task_types_ok :: "task \<Rightarrow> bool" where
  "task_types_ok t \<longleftrightarrow>
     column_ok text_ok (task.title t) \<and>
     column_ok text_ok (task.description t) \<and>
     column_ok int32_ok (task.weight t) \<and>
     column_ok text_ok (task.status t) \<and>
     column_ok datetime_ok (task.deadline t) \<and>
     column_ok text_ok (task.pricing_type t) \<and>
     column_ok int32_ok (task.estimated_hours t) \<and>
     column_ok (list_all text_ok) (task.required_skills t) \<and>
     column_ok int32_ok (task.application_window_minutes t)"

text \<open>
  An UPDATE sets the columns whose attribute differs from the value that was loaded, so
  only the new values of those columns are sent to the store and meet its types.
\<close>

definition sets_ok :: "('a \<Rightarrow> bool) \<Rightarrow> 'a option \<Rightarrow> 'a option \<Rightarrow> bool" where
  "sets_ok P old new \<longleftrightarrow> new = old \<or> column_ok P new"

definition project_sets_ok :: "project \<Rightarrow> project \<Rightarrow> bool" where
  "project_sets_ok old new \<longleftrightarrow>
     sets_ok text_ok (project.title old) (project.title new) \<and>
     sets_ok text_ok (project.description old) (project.description new) \<and>
     sets_ok (list_all text_ok) (project.tags old) (project.tags new) \<and>
     sets_ok text_ok (project.status old) (project.status new)"

definition task_sets_ok :: "task \<Rightarrow> task \<Rightarrow> bool" where
  "task_sets_ok old new \<longleftrightarrow>
     sets_ok text_ok (task.title old) (task.title new) \<and>
     sets_ok text_ok (task.description old) (task.description new) \<and>
     sets_ok int32_ok (task.weight old) (task.weight new) \<and>
     sets_ok text_ok (task.status old) (task.status new) \<and>
     sets_ok datetime_ok (task.deadline old) (task.deadline new) \<and>
     sets_ok text_ok (task.pricing_type old) (task.pricing_type new) \<and>
     sets_ok int32_ok (task.estimated_hours old) (task.estimated_hours new) \<and>
     sets_ok (list_all text_ok) (task.required_skills old) (task.required_skills new) \<and>
     sets_ok int32_ok (task.application_window_minutes old)
       (task.application_window_minutes new)"

definition user_ids :: "db \<Rightarrow> uuid set" where
  "user_ids d = set (map user.id' (users d))"

definition project_ids :: "db \<Rightarrow> uuid set" where
  "project_ids d = set (map project.id' (projects d))"

definition project_row_ok :: "db \<Rightarrow> project \<Rightarrow> bool" where
  "project_row_ok d p \<longleftrightarrow>
     project.title p \<noteq> None \<and> project.description p \<noteq> None \<and> budget p \<noteq> None \<and>
     client_id p \<in> user_ids d"

definition task_row_ok :: "db \<Rightarrow> task \<Rightarrow> bool" where
  "task_row_ok d t \<longleftrightarrow>
     task.title t \<noteq> None \<and> task.description t \<noteq> None \<and> payout t \<noteq> None \<and>
     project_id t \<in> project_ids d \<and>
     set_option (assignee_id t) \<subseteq> user_ids d"

definition notification_row_ok :: "db \<Rightarrow> notification \<Rightarrow> bool" where
  "notification_row_ok d n \<longleftrightarrow> user_id n \<in> user_ids d"

text \<open>
  The statements of a flush. The values of an INSERT and the values that an UPDATE sets
  must fit the types of their columns, or the statement fails with \<^verbatim>\<open>DBAPIError\<close>
  before any constraint is looked at. An INSERT needs a new primary key; an INSERT and an
  UPDATE need a row that has its \<^verbatim>\<open>nullable=False\<close> columns and whose foreign keys
  point to rows, or the statement fails with \<^verbatim>\<open>IntegrityError\<close>; a project that a task
  still points to cannot be deleted; an UPDATE replaces the row with the same primary
  key. The UPDATE of a notification sets the boolean column \<^verbatim>\<open>read\<close> alone.
\<close>

datatype dml =
    Insert_task task
  | Update_task task
  | Delete_task uuid
  | Update_project project
  | Delete_project uuid
  | Update_notification notification

fun apply_write :: "dml \<Rightarrow> db \<Rightarrow> error + db" where
  "apply_write (Insert_task t) d =
     (if \<not> task_types_ok t then Inl DBAPIError
      else if task.id' t \<in> set (map task.id' (tasks d)) \<or> \<not> task_row_ok d t
      then Inl IntegrityError
      else Inr (d\<lparr>tasks := tasks d @ [t]\<rparr>))"
| "apply_write (Update_task t) d =
     (if \<exists>old \<in> set (tasks d). task.id' old = task.id' t \<and> \<not> task_sets_ok old t
      then Inl DBAPIError
      else if \<not> task_row_ok d t then Inl IntegrityError
      else Inr (d\<lparr>tasks := map (\<lambda>x. if task.id' x = task.id' t then t else x) (tasks d)\<rparr>))"
| "apply_write (Delete_task i) d =
     Inr (d\<lparr>tasks := filter (\<lambda>x. task.id' x \<noteq> i) (tasks d)\<rparr>)"
| "apply_write (Update_project p) d =
     (if \<exists>old \<in> set (projects d). project.id' old = project.id' p \<and> \<not> project_sets_ok old p
      then Inl DBAPIError
      else if \<not> project_row_ok d p then Inl IntegrityError
      else Inr (d\<lparr>projects :=
              map (\<lambda>x. if project.id' x = project.id' p then p else x) (projects d)\<rparr>))"
| "apply_write (Delete_project i) d =
     (if \<exists>t \<in> set (tasks d). project_id t = i then Inl IntegrityError
      else Inr (d\<lparr>projects := filter (\<lambda>x. project.id' x \<noteq> i) (projects d)\<rparr>))"
| "apply_write (Update_notification n) d =
     (if \<not> notification_row_ok d n then Inl IntegrityError
      else Inr (d\<lparr>notifications :=
              map (\<lambda>x. if notification.id' x = notification.id' n then n else x)
                (notifications d)\<rparr>))"

fun flush :: "dml list \<Rightarrow> db \<Rightarrow> error + db" where
  "flush [] d = Inr d"
| "flush (w # ws) d = (case apply_write w d of Inl e \<Rightarrow> Inl e | Inr d' \<Rightarrow> flush ws d')"

text \<open>\<^verbatim>\<open>await db.commit()\<close>: all the pending writes, or the exception and the old store.\<close>

definition commit :: "db \<Rightarrow> dml list \<Rightarrow> error + db" where
  "commit d ws = flush ws d"

text \<open>\<^verbatim>\<open>await db.refresh(task)\<close>: the row is read again by its primary key.\<close>

definition refresh_task :: "db \<Rightarrow> task \<Rightarrow> error + task" where
  "refresh_task d t =
     (case find (\<lambda>x. task.id' x = task.id' t) (tasks d) of
        None \<Rightarrow> Inl InvalidRequestError
      | Some t' \<Rightarrow> Inr t')"

definition refresh_project :: "db \<Rightarrow> project \<Rightarrow> error + project" where
  "refresh_project d p =
     (case find (\<lambda>x. project.id' x = project.id' p) (projects d) of
        None \<Rightarrow> Inl InvalidRequestError
      | Some p' \<Rightarrow> Inr p')"

text \<open>
  The store satisfies the declared constraints: primary keys are unique, \<^verbatim>\<open>nullable=False\<close>
  columns hold a value, and foreign keys point to a row.
\<close>

definition db_ok :: "db \<Rightarrow> bool" where
  "db_ok d \<longleftrightarrow>
     distinct (map user.id' (users d)) \<and>
     distinct (map project.id' (projects d)) \<and>
     distinct (map task.id' (tasks d)) \<and>
     distinct (map notification.id' (notifications d)) \<and>
     (\<forall>p \<in> set (projects d). project_row_ok d p) \<and>
     (\<forall>t \<in> set (tasks d). task_row_ok d t) \<and>
     (\<forall>n \<in> set (notifications d). notification_row_ok d n)"

text \<open>Every value that the store holds in a project or a task fits the type of its column.\<close>

definition db_typed :: "db \<Rightarrow> bool" where
  "db_typed d \<longleftrightarrow>
     (\<forall>p \<in> set (projects d). project_types_ok p) \<and>
     (\<forall>t \<in> set (tasks d). task_types_ok t)"

section \<open>Task endpoints (\<^verbatim>\<open>app/api/v1/endpoints/tasks.py\<close>)\<close>

text \<open>\<^verbatim>\<open>claim_task\<close>, \<^verbatim>\<open>POST /tasks/{task_id}/claim\<close>.\<close>

definition claim_task :: "db \<Rightarrow> user \<Rightarrow> uuid \<Rightarrow> db \<times> (error + task)" where
  "claim_task d current_user task_id =
     (if role current_user \<noteq> ''worker'' then
        (d, Inl (HTTPException 403 ''Only workers can claim tasks''))
      else
        case scalar_one_or_none (select_task d task_id) of
          Inl e \<Rightarrow> (d, Inl e)
        | Inr None \<Rightarrow> (d, Inl (HTTPException 404 ''Task not found''))
        | Inr (Some t) \<Rightarrow>
            if task.status t \<noteq> Some ''open'' \<or> assignee_id t \<noteq> None then
              (d, Inl (HTTPException 400 ''Task is not available for claiming''))
            else
              let t1 = t\<lparr>assignee_id := Some (user.id' current_user)\<rparr>;
                  t2 = t1\<lparr>task.status := Some ''assigned''\<rparr>
              in (case commit d [Update_task t2] of
                    Inl e \<Rightarrow> (d, Inl e)
                  | Inr d' \<Rightarrow>
                      (case refresh_task d' t2 of
                         Inl e \<Rightarrow> (d', Inl e)
                       | Inr t' \<Rightarrow> (d', Inr t'))))"


text \<open>
  A column declared with \<^verbatim>\<open>default=...\<close>. On INSERT the ORM leaves an attribute out of
  the statement when it is unset and also when it is \<^verbatim>\<open>None\<close> (SQLAlchemy's rule for a
  column that has a default: \<^verbatim>\<open>None\<close> counts as "no value given"), and the column default
  is stored in its place.
\<close>

definition column_default :: "'a \<Rightarrow> 'a option \<Rightarrow> 'a option" where
  "column_default dflt v = (case v of None \<Rightarrow> Some dflt | Some x \<Rightarrow> Some x)"

text \<open>
  \<^verbatim>\<open>Task(**task_data.dict())\<close> as the INSERT stores it. The constructor sets the twelve
  fields of the schema; \<^verbatim>\<open>id\<close>, \<^verbatim>\<open>assignee_id\<close> and \<^verbatim>\<open>status\<close> stay unset. \<open>new_id\<close> is
  the value that \<^verbatim>\<open>default=uuid.uuid4\<close> draws.
\<close>

definition Task_init :: "TaskCreate \<Rightarrow> uuid \<Rightarrow> task" where
  "Task_init task_data new_id =
     \<lparr> task.id' = new_id,
       task.project_id = TaskCreate.project_id task_data,
       task.title = Some (TaskCreate.title task_data),
       task.description = Some (TaskCreate.description task_data),
       task.weight = column_default 1 (Some (TaskCreate.weight task_data)),
       task.assignee_id = None,
       task.status = column_default ''open'' None,
       task.payout = Some (TaskCreate.payout task_data),
       task.deadline = TaskCreate.deadline task_data,
       task.pricing_type = column_default ''fixed'' (Some (TaskCreate.pricing_type task_data)),
       task.hourly_rate = TaskCreate.hourly_rate task_data,
       task.estimated_hours = TaskCreate.estimated_hours task_data,
       task.required_skills = column_default [] (TaskCreate.required_skills task_data),
       task.auto_assign = column_default False (Some (TaskCreate.auto_assign task_data)),
       task.application_window_minutes =
         column_default 60 (Some (TaskCreate.application_window_minutes task_data)) \<rparr>"

text \<open>\<^verbatim>\<open>create_task\<close>, \<^verbatim>\<open>POST /tasks\<close>.\<close>

definition create_task :: "db \<Rightarrow> user \<Rightarrow> TaskCreate \<Rightarrow> uuid \<Rightarrow> db \<times> (error + task)" where
  "create_task d current_user task_data new_id =
     (case scalar_one_or_none (select_project d (TaskCreate.project_id task_data)) of
        Inl e \<Rightarrow> (d, Inl e)
      | Inr None \<Rightarrow> (d, Inl (HTTPException 404 ''Project not found''))
      | Inr (Some p) \<Rightarrow>
          if project.client_id p \<noteq> user.id' current_user then
            (d, Inl (HTTPException 403 ''Not authorized to create tasks for this project''))
          else
            let db_task = Task_init task_data new_id
            in (case commit d [Insert_task db_task] of
                  Inl e \<Rightarrow> (d, Inl e)
                | Inr d' \<Rightarrow>
                    (case refresh_task d' db_task of
                       Inl e \<Rightarrow> (d', Inl e)
                     | Inr t' \<Rightarrow> (d', Inr t'))))"

text \<open>
  \<^verbatim>\<open>get_tasks\<close>, \<^verbatim>\<open>GET /tasks\<close>. \<open>pid\<close> and \<open>st\<close> are the query parameters
  \<^verbatim>\<open>project_id\<close> and \<^verbatim>\<open>status\<close>; \<^verbatim>\<open>if status:\<close> is false for \<^verbatim>\<open>None\<close> and for the
  empty string. The database rejects a negative OFFSET or LIMIT, one that does not fit
  its 64-bit integer, and a status to compare with that holds the character NUL.
\<close>

definition get_tasks ::
  "db \<Rightarrow> user \<Rightarrow> uuid option \<Rightarrow> string option \<Rightarrow> int \<Rightarrow> int \<Rightarrow> error + task list" where
  "get_tasks d current_user pid st skip limit =
     (let query = tasks d;
          query1 =
            (if role current_user = ''client'' then
               filter (\<lambda>t. task.project_id t \<in>
                          set (map project.id'
                                 (filter (\<lambda>p. project.client_id p = user.id' current_user)
                                    (projects d)))) query
             else if role current_user = ''worker'' then
               filter (\<lambda>t. task.status t = Some ''open'' \<and> task.assignee_id t = None) query
             else query);
          query2 =
            (case pid of
               None \<Rightarrow> query1
             | Some i \<Rightarrow> filter (\<lambda>t. task.project_id t = i) query1);
          query3 =
            (if st = None \<or> st = Some [] then query2
             else filter (\<lambda>t. task.status t = st) query2)
      in if skip < 0 \<or> limit < 0 \<or> 9223372036854775808 \<le> skip \<or>
            9223372036854775808 \<le> limit \<or> \<not> column_ok text_ok st
         then Inl DBAPIError
         else Inr (take (nat limit) (drop (nat skip) query3)))"

text \<open>
  \<^verbatim>\<open>get_task\<close>, \<^verbatim>\<open>GET /tasks/{task_id}\<close>. \<^verbatim>\<open>task.project.client_id\<close> is evaluated only
  for a client, and fails when the relationship is \<^verbatim>\<open>None\<close>.
\<close>

definition get_task :: "db \<Rightarrow> user \<Rightarrow> uuid \<Rightarrow> error + task" where
  "get_task d current_user task_id =
     (case scalar_one_or_none (select_task d task_id) of
        Inl e \<Rightarrow> Inl e
      | Inr None \<Rightarrow> Inl (HTTPException 404 ''Task not found'')
      | Inr (Some t) \<Rightarrow>
          (case (if role current_user = ''client'' then
                   (case task_project d t of
                      None \<Rightarrow> Inl AttributeError
                    | Some p \<Rightarrow> Inr (project.client_id p \<noteq> user.id' current_user))
                 else Inr False) of
             Inl e \<Rightarrow> Inl e
           | Inr not_own \<Rightarrow>
               if not_own \<or>
                  (role current_user = ''worker'' \<and>
                   task.assignee_id t \<noteq> Some (user.id' current_user) \<and>
                   task.status t \<noteq> Some ''open'')
               then Inl (HTTPException 403 ''Not authorized to view this task'')
               else Inr t))"

text \<open>
  \<^verbatim>\<open>task_update.dict(exclude_unset=True)\<close>: the items of the fields that were set, in the
  order of the schema, and \<^verbatim>\<open>setattr(task, field, value)\<close> for one item.
\<close>

datatype task_item =
    T_title "string option"
  | T_description "string option"
  | T_weight "int option"
  | T_payout "float option"
  | T_deadline "datetime option"
  | T_status "string option"
  | T_assignee_id "uuid option"
  | T_pricing_type "string option"
  | T_hourly_rate "float option"
  | T_estimated_hours "int option"
  | T_required_skills "string list option"
  | T_auto_assign "bool option"

definition item :: "('a \<Rightarrow> 'i) \<Rightarrow> 'a option \<Rightarrow> 'i list" where
  "item c v = (case v of None \<Rightarrow> [] | Some x \<Rightarrow> [c x])"

definition TaskUpdate_dict :: "TaskUpdate \<Rightarrow> task_item list" where
  "TaskUpdate_dict u =
     item T_title (TaskUpdate.title u) @
     item T_description (TaskUpdate.description u) @
     item T_weight (TaskUpdate.weight u) @
     item T_payout (TaskUpdate.payout u) @
     item T_deadline (TaskUpdate.deadline u) @
     item T_status (TaskUpdate.status u) @
     item T_assignee_id (TaskUpdate.assignee_id u) @
     item T_pricing_type (TaskUpdate.pricing_type u) @
     item T_hourly_rate (TaskUpdate.hourly_rate u) @
     item T_estimated_hours (TaskUpdate.estimated_hours u) @
     item T_required_skills (TaskUpdate.required_skills u) @
     item T_auto_assign (TaskUpdate.auto_assign u)"

fun setattr_task :: "task \<Rightarrow> task_item \<Rightarrow> task" where
  "setattr_task t (T_title v) = t\<lparr>task.title := v\<rparr>"
| "setattr_task t (T_description v) = t\<lparr>task.description := v\<rparr>"
| "setattr_task t (T_weight v) = t\<lparr>task.weight := v\<rparr>"
| "setattr_task t (T_payout v) = t\<lparr>task.payout := v\<rparr>"
| "setattr_task t (T_deadline v) = t\<lparr>task.deadline := v\<rparr>"
| "setattr_task t (T_status v) = t\<lparr>task.status := v\<rparr>"
| "setattr_task t (T_assignee_id v) = t\<lparr>task.assignee_id := v\<rparr>"
| "setattr_task t (T_pricing_type v) = t\<lparr>task.pricing_type := v\<rparr>"
| "setattr_task t (T_hourly_rate v) = t\<lparr>task.hourly_rate := v\<rparr>"
| "setattr_task t (T_estimated_hours v) = t\<lparr>task.estimated_hours := v\<rparr>"
| "setattr_task t (T_required_skills v) = t\<lparr>task.required_skills := v\<rparr>"
| "setattr_task t (T_auto_assign v) = t\<lparr>task.auto_assign := v\<rparr>"

text \<open>\<^verbatim>\<open>update_task\<close>, \<^verbatim>\<open>PUT /tasks/{task_id}\<close>.\<close>

definition update_task :: "db \<Rightarrow> user \<Rightarrow> uuid \<Rightarrow> TaskUpdate \<Rightarrow> db \<times> (error + task)" where
  "update_task d current_user task_id task_update =
     (case scalar_one_or_none (select_task d task_id) of
        Inl e \<Rightarrow> (d, Inl e)
      | Inr None \<Rightarrow> (d, Inl (HTTPException 404 ''Task not found''))
      | Inr (Some t) \<Rightarrow>
          (case (if role current_user = ''client'' then
                   (case task_project d t of
                      None \<Rightarrow> Inl AttributeError
                    | Some p \<Rightarrow> Inr (project.client_id p \<noteq> user.id' current_user))
                 else Inr False) of
             Inl e \<Rightarrow> (d, Inl e)
           | Inr not_own \<Rightarrow>
               if not_own then
                 (d, Inl (HTTPException 403 ''Not authorized to update this task''))
               else if role current_user = ''worker'' \<and>
                       task.assignee_id t \<noteq> Some (user.id' current_user) then
                 (d, Inl (HTTPException 403 ''Not authorized to update this task''))
               else
                 let update_data = TaskUpdate_dict task_update;
                     t' = foldl setattr_task t update_data
                 in (case commit d [Update_task t'] of
                       Inl e \<Rightarrow> (d, Inl e)
                     | Inr d' \<Rightarrow>
                         (case refresh_task d' t' of
                            Inl e \<Rightarrow> (d', Inl e)
                          | Inr t'' \<Rightarrow> (d', Inr t'')))))"

section \<open>Project endpoints (\<^verbatim>\<open>app/api/v1/endpoints/projects.py\<close>)\<close>

text \<open>\<^verbatim>\<open>get_project\<close>, \<^verbatim>\<open>GET /projects/{project_id}\<close>.\<close>

definition get_project :: "db \<Rightarrow> user \<Rightarrow> uuid \<Rightarrow> error + project" where
  "get_project d current_user pid =
     (case scalar_one_or_none (select_project d pid) of
        Inl e \<Rightarrow> Inl e
      | Inr None \<Rightarrow> Inl (HTTPException 404 ''Project not found'')
      | Inr (Some p) \<Rightarrow>
          if role current_user = ''client'' \<and> project.client_id p \<noteq> user.id' current_user then
            Inl (HTTPException 403 ''Not authorized to view this project'')
          else Inr p)"

datatype project_item =
    P_title "string option"
  | P_description "string option"
  | P_tags "string list option"
  | P_budget "float option"
  | P_status "string option"

definition ProjectUpdate_dict :: "ProjectUpdate \<Rightarrow> project_item list" where
  "ProjectUpdate_dict u =
     item P_title (ProjectUpdate.title u) @
     item P_description (ProjectUpdate.description u) @
     item P_tags (ProjectUpdate.tags u) @
     item P_budget (ProjectUpdate.budget u) @
     item P_status (ProjectUpdate.status u)"

fun setattr_project :: "project \<Rightarrow> project_item \<Rightarrow> project" where
  "setattr_project p (P_title v) = p\<lparr>project.title := v\<rparr>"
| "setattr_project p (P_description v) = p\<lparr>project.description := v\<rparr>"
| "setattr_project p (P_tags v) = p\<lparr>project.tags := v\<rparr>"
| "setattr_project p (P_budget v) = p\<lparr>project.budget := v\<rparr>"
| "setattr_project p (P_status v) = p\<lparr>project.status := v\<rparr>"

text \<open>\<^verbatim>\<open>update_project\<close>, \<^verbatim>\<open>PUT /projects/{project_id}\<close>.\<close>

definition update_project ::
  "db \<Rightarrow> user \<Rightarrow> uuid \<Rightarrow> ProjectUpdate \<Rightarrow> db \<times> (error + project)" where
  "update_project d current_user pid project_update =
     (case scalar_one_or_none (select_project d pid) of
        Inl e \<Rightarrow> (d, Inl e)
      | Inr None \<Rightarrow> (d, Inl (HTTPException 404 ''Project not found''))
      | Inr (Some p) \<Rightarrow>
          if project.client_id p \<noteq> user.id' current_user then
            (d, Inl (HTTPException 403 ''Not authorized to update this project''))
          else
            let update_data = ProjectUpdate_dict project_update;
                p' = foldl setattr_project p update_data
            in (case commit d [Update_project p'] of
                  Inl e \<Rightarrow> (d, Inl e)
                | Inr d' \<Rightarrow>
                    (case refresh_project d' p' of
                       Inl e \<Rightarrow> (d', Inl e)
                     | Inr p'' \<Rightarrow> (d', Inr p''))))"

text \<open>
  \<^verbatim>\<open>await db.delete(project)\<close>: the relationship \<^verbatim>\<open>Project.tasks\<close> is declared with
  \<^verbatim>\<open>cascade="all, delete-orphan"\<close>, so the session loads the tasks of the project and
  marks each of them deleted, then the project.
\<close>

definition session_delete_project :: "db \<Rightarrow> project \<Rightarrow> dml list" where
  "session_delete_project d p =
     map (\<lambda>t. Delete_task (task.id' t)) (project_tasks d p) @ [Delete_project (project.id' p)]"

text \<open>\<^verbatim>\<open>delete_project\<close>, \<^verbatim>\<open>DELETE /projects/{project_id}\<close>. A JSON object is a list of items.\<close>

definition delete_project ::
  "db \<Rightarrow> user \<Rightarrow> uuid \<Rightarrow> db \<times> (error + (string \<times> string) list)" where
  "delete_project d current_user pid =
     (case scalar_one_or_none (select_project d pid) of
        Inl e \<Rightarrow> (d, Inl e)
      | Inr None \<Rightarrow> (d, Inl (HTTPException 404 ''Project not found''))
      | Inr (Some p) \<Rightarrow>
          if project.client_id p \<noteq> user.id' current_user then
            (d, Inl (HTTPException 403 ''Not authorized to delete this project''))
          else
            (case commit d (session_delete_project d p) of
               Inl e \<Rightarrow> (d, Inl e)
             | Inr d' \<Rightarrow> (d', Inr [(''message'', ''Project deleted successfully'')])))"

section \<open>Notification endpoints (\<^verbatim>\<open>app/api/v1/endpoints/notifications.py\<close>)\<close>

text \<open>\<^verbatim>\<open>str(n)\<close> for a length: the decimal digits.\<close>

definition digit :: "nat \<Rightarrow> char" where
  "digit n = ''0123456789'' ! n"

fun str :: "nat \<Rightarrow> string" where
  "str n = (if n < 10 then [digit n] else str (n div 10) @ [digit (n mod 10)])"

text \<open>\<^verbatim>\<open>mark_all_notifications_read\<close>, \<^verbatim>\<open>PUT /notifications/mark-all-read\<close>.\<close>

definition mark_all_notifications_read ::
  "db \<Rightarrow> user \<Rightarrow> db \<times> (error + (string \<times> string) list)" where
  "mark_all_notifications_read d current_user =
     (let ns = filter (\<lambda>n. notification.user_id n = user.id' current_user \<and>
                            notification.read n = Some False) (notifications d);
          ns' = map (\<lambda>n. n\<lparr>notification.read := Some True\<rparr>) ns
      in case commit d (map Update_notification ns') of
           Inl e \<Rightarrow> (d, Inl e)
         | Inr d' \<Rightarrow>
             (d', Inr [(''message'',
                        ''Marked '' @ str (length ns) @ '' notifications as read'')]))"


section \<open>The partial patch of the specification\<close>

text \<open>
  The spec (section 4.3): "only fields present in the request overwrite existing fields
  (unset fields are untouched, not nulled)". \<open>overwrite v old\<close> is the attribute after
  a request whose field is \<open>v\<close>; \<open>project_patched\<close> and \<open>task_patched\<close> are the rows the
  spec asks for, to be compared with what the \<^verbatim>\<open>setattr\<close> loops of the endpoints build.
\<close>

definition overwrite :: "'a option \<Rightarrow> 'a \<Rightarrow> 'a" where
  "overwrite v old = (case v of None \<Rightarrow> old | Some x \<Rightarrow> x)"

definition project_patched :: "ProjectUpdate \<Rightarrow> project \<Rightarrow> project" where
  "project_patched u p =
     p\<lparr> project.title := overwrite (ProjectUpdate.title u) (project.title p),
        project.description := overwrite (ProjectUpdate.description u) (project.description p),
        project.tags := overwrite (ProjectUpdate.tags u) (project.tags p),
        project.budget := overwrite (ProjectUpdate.budget u) (project.budget p),
        project.status := overwrite (ProjectUpdate.status u) (project.status p) \<rparr>"

definition task_patched :: "TaskUpdate \<Rightarrow> task \<Rightarrow> task" where
  "task_patched u t =
     t\<lparr> task.title := overwrite (TaskUpdate.title u) (task.title t),
        task.description := overwrite (TaskUpdate.description u) (task.description t),
        task.weight := overwrite (TaskUpdate.weight u) (task.weight t),
        task.payout := overwrite (TaskUpdate.payout u) (task.payout t),
        task.deadline := overwrite (TaskUpdate.deadline u) (task.deadline t),
        task.status := overwrite (TaskUpdate.status u) (task.status t),
        task.assignee_id := overwrite (TaskUpdate.assignee_id u) (task.assignee_id t),
        task.pricing_type := overwrite (TaskUpdate.pricing_type u) (task.pricing_type t),
        task.hourly_rate := overwrite (TaskUpdate.hourly_rate u) (task.hourly_rate t),
        task.estimated_hours := overwrite (TaskUpdate.estimated_hours u) (task.estimated_hours t),
        task.required_skills := overwrite (TaskUpdate.required_skills u) (task.required_skills t),
        task.auto_assign := overwrite (TaskUpdate.auto_assign u) (task.auto_assign t) \<rparr>"

text \<open>
  The requests whose values fit the column types: every text that is sent is free of
  NUL, every integer that is sent for an \<^verbatim>\<open>Integer\<close> column is a 32-bit integer, and a
  deadline that is sent is an instant of the years 1 to 9999. A field that is unset or
  \<^verbatim>\<open>null\<close> sends no value.
\<close>

definition ProjectUpdate_typed :: "ProjectUpdate \<Rightarrow> bool" where
  "ProjectUpdate_typed u \<longleftrightarrow>
     column_ok (column_ok text_ok) (ProjectUpdate.title u) \<and>
     column_ok (column_ok text_ok) (ProjectUpdate.description u) \<and>
     column_ok (column_ok (list_all text_ok)) (ProjectUpdate.tags u) \<and>
     column_ok (column_ok text_ok) (ProjectUpdate.status u)"

definition TaskUpdate_typed :: "TaskUpdate \<Rightarrow> bool" where
  "TaskUpdate_typed u \<longleftrightarrow>
     column_ok (column_ok text_ok) (TaskUpdate.title u) \<and>
     column_ok (column_ok text_ok) (TaskUpdate.description u) \<and>
     column_ok (column_ok int32_ok) (TaskUpdate.weight u) \<and>
     column_ok (column_ok text_ok) (TaskUpdate.status u) \<and>
     column_ok (column_ok datetime_ok) (TaskUpdate.deadline u) \<and>
     column_ok (column_ok text_ok) (TaskUpdate.pricing_type u) \<and>
     column_ok (column_ok int32_ok) (TaskUpdate.estimated_hours u) \<and>
     column_ok (column_ok (list_all text_ok)) (TaskUpdate.required_skills u)"

definition TaskCreate_typed :: "TaskCreate \<Rightarrow> bool" where
  "TaskCreate_typed c \<longleftrightarrow>
     text_ok (TaskCreate.title c) \<and>
     text_ok (TaskCreate.description c) \<and>
     int32_ok (TaskCreate.weight c) \<and>
     column_ok datetime_ok (TaskCreate.deadline c) \<and>
     text_ok (TaskCreate.pricing_type c) \<and>
     column_ok int32_ok (TaskCreate.estimated_hours c) \<and>
     column_ok (list_all text_ok) (TaskCreate.required_skills c) \<and>
     int32_ok (TaskCreate.application_window_minutes c)"

text \<open>\<^verbatim>\<open>TaskUpdate()\<close> and \<^verbatim>\<open>ProjectUpdate()\<close>: requests with no field set.\<close>

definition TaskUpdate_unset :: TaskUpdate where
  "TaskUpdate_unset =
     \<lparr> TaskUpdate.title = None, TaskUpdate.description = None, TaskUpdate.weight = None,
       TaskUpdate.payout = None, TaskUpdate.deadline = None, TaskUpdate.status = None,
       TaskUpdate.assignee_id = None, TaskUpdate.pricing_type = None,
       TaskUpdate.hourly_rate = None, TaskUpdate.estimated_hours = None,
       TaskUpdate.required_skills = None, TaskUpdate.auto_assign = None \<rparr>"

definition ProjectUpdate_unset :: ProjectUpdate where
  "ProjectUpdate_unset =
     \<lparr> ProjectUpdate.title = None, ProjectUpdate.description = None,
       ProjectUpdate.tags = None, ProjectUpdate.budget = None, ProjectUpdate.status = None \<rparr>"

section \<open>A sample store\<close>

text \<open>
  Two clients, two workers, two projects, three tasks and six notifications, used to
  run the endpoints on concrete requests.
\<close>

definition alice :: user where
  "alice = \<lparr> user.id' = 1, email = ''alice@example.com'', role = ''client'' \<rparr>"

definition bob :: user where
  "bob = \<lparr> user.id' = 2, email = ''bob@example.com'', role = ''worker'' \<rparr>"

definition carol :: user where
  "carol = \<lparr> user.id' = 3, email = ''carol@example.com'', role = ''client'' \<rparr>"

definition dave :: user where
  "dave = \<lparr> user.id' = 4, email = ''dave@example.com'', role = ''worker'' \<rparr>"

definition project_a :: project where
  "project_a =
     \<lparr> project.id' = 10, project.client_id = 1, project.title = Some ''A'',
       project.description = Some ''landing page'', project.tags = Some [],
       project.budget = Some 10, project.status = Some ''open'' \<rparr>"

definition project_b :: project where
  "project_b =
     \<lparr> project.id' = 11, project.client_id = 3, project.title = Some ''B'',
       project.description = Some ''data entry'', project.tags = Some [''csv''],
       project.budget = Some 250, project.status = Some ''in_progress'' \<rparr>"

definition task_open :: task where
  "task_open =
     \<lparr> task.id' = 20, task.project_id = 10, task.title = Some ''logo'',
       task.description = Some ''draw a logo'', task.weight = Some 1,
       task.assignee_id = None, task.status = Some ''open'', task.payout = Some 5,
       task.deadline = None, task.pricing_type = Some ''fixed'', task.hourly_rate = None,
       task.estimated_hours = None, task.required_skills = Some [],
       task.auto_assign = Some False, task.application_window_minutes = Some 60 \<rparr>"

definition task_taken :: task where
  "task_taken =
     \<lparr> task.id' = 21, task.project_id = 10, task.title = Some ''copy'',
       task.description = Some ''write the copy'', task.weight = Some 2,
       task.assignee_id = Some 2, task.status = Some ''assigned'', task.payout = Some 7,
       task.deadline = Some 63902822400000000, task.pricing_type = Some ''hourly'',
       task.hourly_rate = Some 3, task.estimated_hours = Some 4,
       task.required_skills = Some [''writing''], task.auto_assign = Some False,
       task.application_window_minutes = Some 60 \<rparr>"

definition task_other :: task where
  "task_other =
     \<lparr> task.id' = 22, task.project_id = 11, task.title = Some ''typing'',
       task.description = Some ''type the forms'', task.weight = Some 1,
       task.assignee_id = None, task.status = Some ''open'', task.payout = Some 9,
       task.deadline = None, task.pricing_type = Some ''fixed'', task.hourly_rate = None,
       task.estimated_hours = None, task.required_skills = Some [],
       task.auto_assign = Some True, task.application_window_minutes = Some 30 \<rparr>"

definition notif :: "uuid \<Rightarrow> uuid \<Rightarrow> bool \<Rightarrow> notification" where
  "notif i u r =
     \<lparr> notification.id' = i, notification.user_id = u, notification.title = ''news'',
       notification.message = ''hello'', notification.type' = Some ''info'',
       notification.read = Some r \<rparr>"

definition store0 :: db where
  "store0 =
     \<lparr> users = [alice, bob, carol, dave],
       projects = [project_a, project_b],
       tasks = [task_open, task_taken, task_other],
       notifications =
         [notif 30 2 False, notif 31 2 True, notif 32 2 False, notif 33 1 False,
          notif 34 2 True, notif 35 2 False] \<rparr>"

text \<open>Requests: \<^verbatim>\<open>{"budget": 20}\<close>, \<^verbatim>\<open>{"title": null, "budget": 20}\<close>,
  \<^verbatim>\<open>{"weight": 2147483648}\<close> and \<^verbatim>\<open>{"payout": 8, "deadline": null}\<close>.\<close>

definition budget_only :: ProjectUpdate where
  "budget_only = ProjectUpdate_unset\<lparr>ProjectUpdate.budget := Some (Some 20)\<rparr>"

definition null_title :: ProjectUpdate where
  "null_title =
     ProjectUpdate_unset\<lparr>ProjectUpdate.title := Some None,
                         ProjectUpdate.budget := Some (Some 20)\<rparr>"

definition weight_too_large :: TaskUpdate where
  "weight_too_large = TaskUpdate_unset\<lparr>TaskUpdate.weight := Some (Some 2147483648)\<rparr>"

definition payout_only :: TaskUpdate where
  "payout_only =
     TaskUpdate_unset\<lparr>TaskUpdate.payout := Some (Some 8), TaskUpdate.deadline := Some None\<rparr>"

text \<open>
  Bodies of \<^verbatim>\<open>POST /tasks\<close>: one with the required fields only, one with a deadline, an
  hourly pricing and a list of skills, one with the weight 2147483648, and one that sends
  \<^verbatim>\<open>"required_skills": null\<close>.
\<close>

definition body_min :: TaskCreate_body where
  "body_min =
     \<lparr> TaskCreate_body.title = ''banner'', TaskCreate_body.description = ''make a banner'',
       TaskCreate_body.weight = None, TaskCreate_body.payout = 12,
       TaskCreate_body.deadline = None, TaskCreate_body.pricing_type = None,
       TaskCreate_body.hourly_rate = None, TaskCreate_body.estimated_hours = None,
       TaskCreate_body.required_skills = None, TaskCreate_body.auto_assign = None,
       TaskCreate_body.application_window_minutes = None,
       TaskCreate_body.project_id = 10 \<rparr>"

definition body_full :: TaskCreate_body where
  "body_full =
     \<lparr> TaskCreate_body.title = ''video'', TaskCreate_body.description = ''cut the video'',
       TaskCreate_body.weight = Some 3, TaskCreate_body.payout = 40,
       TaskCreate_body.deadline = Some (Some 63934358400000000),
       TaskCreate_body.pricing_type = Some ''hourly'',
       TaskCreate_body.hourly_rate = Some (Some 8),
       TaskCreate_body.estimated_hours = Some (Some 5),
       TaskCreate_body.required_skills = Some (Some [''editing'']),
       TaskCreate_body.auto_assign = Some True,
       TaskCreate_body.application_window_minutes = Some 15,
       TaskCreate_body.project_id = 10 \<rparr>"

definition body_heavy :: TaskCreate_body where
  "body_heavy = body_min\<lparr>TaskCreate_body.weight := Some 2147483648\<rparr>"

definition body_null_skills :: TaskCreate_body where
  "body_null_skills = body_min\<lparr>TaskCreate_body.required_skills := Some None\<rparr>"

lemmas sample_defs =
  alice_def bob_def carol_def dave_def project_a_def project_b_def
  task_open_def task_taken_def task_other_def notif_def store0_def

lemmas store_defs =
  db_ok_def project_row_ok_def task_row_ok_def notification_row_ok_def
  user_ids_def project_ids_def

lemmas type_defs =
  db_typed_def project_types_ok_def task_types_ok_def project_sets_ok_def task_sets_ok_def
  sets_ok_def text_ok_def int32_ok_def datetime_ok_def

declare str.simps [simp del]

section \<open>Rows and keys\<close>

lemma filter_key_unique:
  "distinct (map f xs) \<Longrightarrow> x \<in> set xs \<Longrightarrow> filter (\<lambda>y. f y = f x) xs = [x]"
proof (induction xs)
  case Nil
  then show ?case by simp
next
  case (Cons a xs)
  show ?case
  proof (cases "a = x")
    case True
    with Cons.prems have "f x \<notin> f ` set xs" by simp
    then have "\<forall>y \<in> set xs. f y \<noteq> f x" by (metis imageI)
    then have "filter (\<lambda>y. f y = f x) xs = []" by (simp add: filter_empty_conv)
    with True show ?thesis by simp
  next
    case False
    with Cons.prems have "x \<in> set xs" and "f a \<noteq> f x" by auto
    with Cons show ?thesis by simp
  qed
qed

lemma filter_key_absent:
  "i \<notin> set (map f xs) \<Longrightarrow> filter (\<lambda>y. f y = i) xs = []"
  by (auto simp: filter_empty_conv)

lemma find_key_unique:
  "distinct (map f xs) \<Longrightarrow> x \<in> set xs \<Longrightarrow> find (\<lambda>y. f y = f x) xs = Some x"
  by (induction xs) force+

lemma find_key_replaced:
  "x \<in> set xs \<Longrightarrow> f x' = f x \<Longrightarrow>
   find (\<lambda>y. f y = f x) (map (\<lambda>y. if f y = f x' then x' else y) xs) = Some x'"
  by (induction xs) auto

lemma same_key_row:
  "distinct (map f xs) \<Longrightarrow> x \<in> set xs \<Longrightarrow> (\<exists>y \<in> set xs. f y = f x \<and> Q y) \<longleftrightarrow> Q x"
proof -
  assume "distinct (map f xs)" and x: "x \<in> set xs"
  then have "inj_on f (set xs)" by (simp add: distinct_map)
  with x have "\<And>y. y \<in> set xs \<Longrightarrow> f y = f x \<Longrightarrow> y = x" by (auto dest: inj_onD)
  with x show ?thesis by blast
qed

lemma task_sets_ok_row:
  "db_ok d \<Longrightarrow> t \<in> set (tasks d) \<Longrightarrow> task.id' t' = task.id' t \<Longrightarrow>
   (\<exists>old \<in> set (tasks d). task.id' old = task.id' t' \<and> \<not> task_sets_ok old t') \<longleftrightarrow>
   \<not> task_sets_ok t t'"
  using same_key_row [of task.id' "tasks d" t "\<lambda>old. \<not> task_sets_ok old t'"]
  by (simp add: db_ok_def)

lemma project_sets_ok_row:
  "db_ok d \<Longrightarrow> p \<in> set (projects d) \<Longrightarrow> project.id' p' = project.id' p \<Longrightarrow>
   (\<exists>old \<in> set (projects d). project.id' old = project.id' p' \<and> \<not> project_sets_ok old p')
     \<longleftrightarrow> \<not> project_sets_ok p p'"
  using same_key_row [of project.id' "projects d" p "\<lambda>old. \<not> project_sets_ok old p'"]
  by (simp add: db_ok_def)

lemma select_task_unique:
  "db_ok d \<Longrightarrow> t \<in> set (tasks d) \<Longrightarrow> select_task d (task.id' t) = [t]"
  unfolding select_task_def db_ok_def by (simp add: filter_key_unique)

lemma select_project_unique:
  "db_ok d \<Longrightarrow> p \<in> set (projects d) \<Longrightarrow> select_project d (project.id' p) = [p]"
  unfolding select_project_def db_ok_def by (simp add: filter_key_unique)

lemma task_row_ok_in: "db_ok d \<Longrightarrow> t \<in> set (tasks d) \<Longrightarrow> task_row_ok d t"
  by (simp add: db_ok_def)

lemma project_row_ok_in: "db_ok d \<Longrightarrow> p \<in> set (projects d) \<Longrightarrow> project_row_ok d p"
  by (simp add: db_ok_def)

lemma task_project_in:
  assumes "db_ok d" "t \<in> set (tasks d)"
  shows "\<exists>p \<in> set (projects d). project.id' p = task.project_id t \<and> task_project d t = Some p"
proof -
  from assms have "task.project_id t \<in> project_ids d"
    by (auto simp: db_ok_def task_row_ok_def)
  then obtain p where p: "p \<in> set (projects d)" "project.id' p = task.project_id t"
    by (auto simp: project_ids_def)
  from assms(1) have "distinct (map project.id' (projects d))" by (simp add: db_ok_def)
  from find_key_unique [OF this p(1)] p show ?thesis
    by (auto simp: task_project_def)
qed

lemma store0_ok: "db_ok store0"
  by (simp add: sample_defs store_defs)

lemma store0_typed: "db_typed store0"
  by (simp add: sample_defs type_defs)

section \<open>Every endpoint keeps the constraints of the store\<close>

text \<open>
  A write that the store accepts leaves a store that satisfies the declared constraints,
  so \<open>db_ok\<close> holds in every store that the endpoints reach from one where it holds.
\<close>

lemma map_key_replace:
  "map f (map (\<lambda>x. if f x = f y then y else x) xs) = map f xs"
  by (induction xs) auto

lemma key_replace_comp: "f \<circ> (\<lambda>x. if f x = f y then y else x) = f"
  by (auto simp: fun_eq_iff)

lemma apply_write_db_ok:
  assumes "db_ok d" and "apply_write w d = Inr d'"
  shows "db_ok d'"
proof (cases w)
  case (Insert_task t)
  with assms(2) have d': "d' = d\<lparr>tasks := tasks d @ [t]\<rparr>"
    and ok: "task_row_ok d t" and new: "task.id' t \<notin> set (map task.id' (tasks d))"
    by (auto split: if_splits)
  show ?thesis
    using assms(1) ok new unfolding d' store_defs by (auto)
next
  case (Update_task t)
  with assms(2) have d': "d' = d\<lparr>tasks := map (\<lambda>x. if task.id' x = task.id' t then t else x) (tasks d)\<rparr>"
    and ok: "task_row_ok d t"
    by (auto split: if_splits)
  show ?thesis
    using assms(1) ok unfolding d' store_defs by (auto simp: map_key_replace key_replace_comp)
next
  case (Delete_task i)
  with assms(2) have d': "d' = d\<lparr>tasks := filter (\<lambda>x. task.id' x \<noteq> i) (tasks d)\<rparr>"
    by simp
  show ?thesis
    using assms(1) unfolding d' store_defs by (auto simp: distinct_map_filter)
next
  case (Update_project p)
  with assms(2) have d': "d' = d\<lparr>projects := map (\<lambda>x. if project.id' x = project.id' p then p else x) (projects d)\<rparr>"
    and ok: "project_row_ok d p"
    by (auto split: if_splits)
  show ?thesis
    using assms(1) ok unfolding d' store_defs by (auto simp: map_key_replace key_replace_comp)
next
  case (Delete_project i)
  with assms(2) have d': "d' = d\<lparr>projects := filter (\<lambda>x. project.id' x \<noteq> i) (projects d)\<rparr>"
    and free: "\<forall>t \<in> set (tasks d). task.project_id t \<noteq> i"
    by (auto split: if_splits)
  have fk: "task.project_id t \<in> project.id' ` {x \<in> set (projects d). project.id' x \<noteq> i}"
    if "t \<in> set (tasks d)" for t
  proof -
    from assms(1) that have "task.project_id t \<in> project.id' ` set (projects d)"
      unfolding store_defs by auto
    then obtain x where "x \<in> set (projects d)" "project.id' x = task.project_id t"
      by auto
    with free that show ?thesis by force
  qed
  show ?thesis
    using assms(1) fk unfolding d' store_defs by (auto simp: distinct_map_filter)
next
  case (Update_notification n)
  with assms(2) have d': "d' = d\<lparr>notifications :=
      map (\<lambda>x. if notification.id' x = notification.id' n then n else x) (notifications d)\<rparr>"
    and ok: "notification_row_ok d n"
    by (auto split: if_splits)
  show ?thesis
    using assms(1) ok unfolding d' store_defs by (auto simp: map_key_replace key_replace_comp)
qed

lemma flush_db_ok: "db_ok d \<Longrightarrow> flush ws d = Inr d' \<Longrightarrow> db_ok d'"
proof (induction ws arbitrary: d)
  case Nil
  then show ?case by simp
next
  case (Cons w ws)
  then show ?case
    by (auto split: sum.splits dest: apply_write_db_ok)
qed

lemma commit_db_ok: "db_ok d \<Longrightarrow> commit d ws = Inr d' \<Longrightarrow> db_ok d'"
  unfolding commit_def by (rule flush_db_ok)

lemma endpoints_keep_db_ok:
  assumes "db_ok d"
  shows "db_ok (fst (claim_task d u i))"
    and "db_ok (fst (create_task d u task_data new_id))"
    and "db_ok (fst (update_task d u i tu))"
    and "db_ok (fst (update_project d u i pu))"
    and "db_ok (fst (delete_project d u i))"
    and "db_ok (fst (mark_all_notifications_read d u))"
  using assms
  unfolding claim_task_def create_task_def update_task_def update_project_def
    delete_project_def mark_all_notifications_read_def Let_def
  by (auto split: sum.splits option.splits if_splits dest: commit_db_ok)

text \<open>
  The same for the types of the columns: an UPDATE that the store accepts sets values
  that fit, and the values it leaves were in the store before.
\<close>

lemma sets_ok_column_ok: "column_ok P old \<Longrightarrow> sets_ok P old new \<Longrightarrow> column_ok P new"
  by (auto simp: sets_ok_def)

lemma task_sets_ok_types: "task_types_ok old \<Longrightarrow> task_sets_ok old t \<Longrightarrow> task_types_ok t"
  unfolding task_types_ok_def task_sets_ok_def by (blast intro: sets_ok_column_ok)

lemma project_sets_ok_types:
  "project_types_ok old \<Longrightarrow> project_sets_ok old p \<Longrightarrow> project_types_ok p"
  unfolding project_types_ok_def project_sets_ok_def by (blast intro: sets_ok_column_ok)

lemma apply_write_db_typed:
  assumes "db_typed d" and "apply_write w d = Inr d'"
  shows "db_typed d'"
proof (cases w)
  case (Insert_task t)
  with assms(2) have "d' = d\<lparr>tasks := tasks d @ [t]\<rparr>" and "task_types_ok t"
    by (auto split: if_splits)
  with assms(1) show ?thesis by (auto simp: db_typed_def)
next
  case (Update_task t)
  with assms(2) have d': "d' = d\<lparr>tasks := map (\<lambda>x. if task.id' x = task.id' t then t else x) (tasks d)\<rparr>"
    and sets: "\<forall>old \<in> set (tasks d). task.id' old = task.id' t \<longrightarrow> task_sets_ok old t"
    by (auto split: if_splits)
  have "task_types_ok x" if "x \<in> set (tasks d')" for x
  proof -
    from that obtain old where old: "old \<in> set (tasks d)"
      and x: "x = (if task.id' old = task.id' t then t else old)"
      unfolding d' by auto
    from assms(1) old have "task_types_ok old" by (simp add: db_typed_def)
    with sets old x show ?thesis by (auto intro: task_sets_ok_types)
  qed
  moreover have "projects d' = projects d" by (simp add: d')
  ultimately show ?thesis using assms(1) by (simp add: db_typed_def)
next
  case (Delete_task i)
  with assms show ?thesis by (auto simp: db_typed_def)
next
  case (Update_project p)
  with assms(2) have d': "d' = d\<lparr>projects := map (\<lambda>x. if project.id' x = project.id' p then p else x) (projects d)\<rparr>"
    and sets: "\<forall>old \<in> set (projects d). project.id' old = project.id' p \<longrightarrow>
                 project_sets_ok old p"
    by (auto split: if_splits)
  have "project_types_ok x" if "x \<in> set (projects d')" for x
  proof -
    from that obtain old where old: "old \<in> set (projects d)"
      and x: "x = (if project.id' old = project.id' p then p else old)"
      unfolding d' by auto
    from assms(1) old have "project_types_ok old" by (simp add: db_typed_def)
    with sets old x show ?thesis by (auto intro: project_sets_ok_types)
  qed
  moreover have "tasks d' = tasks d" by (simp add: d')
  ultimately show ?thesis using assms(1) by (simp add: db_typed_def)
next
  case (Delete_project i)
  with assms show ?thesis by (auto simp: db_typed_def split: if_splits)
next
  case (Update_notification n)
  with assms show ?thesis by (auto simp: db_typed_def split: if_splits)
qed

lemma flush_db_typed: "db_typed d \<Longrightarrow> flush ws d = Inr d' \<Longrightarrow> db_typed d'"
proof (induction ws arbitrary: d)
  case Nil
  then show ?case by simp
next
  case (Cons w ws)
  then show ?case
    by (auto split: sum.splits dest: apply_write_db_typed)
qed

lemma commit_db_typed: "db_typed d \<Longrightarrow> commit d ws = Inr d' \<Longrightarrow> db_typed d'"
  unfolding commit_def by (rule flush_db_typed)

lemma endpoints_keep_db_typed:
  assumes "db_typed d"
  shows "db_typed (fst (claim_task d u i))"
    and "db_typed (fst (create_task d u task_data new_id))"
    and "db_typed (fst (update_task d u i tu))"
    and "db_typed (fst (update_project d u i pu))"
    and "db_typed (fst (delete_project d u i))"
    and "db_typed (fst (mark_all_notifications_read d u))"
  using assms
  unfolding claim_task_def create_task_def update_task_def update_project_def
    delete_project_def mark_all_notifications_read_def Let_def
  by (auto split: sum.splits option.splits if_splits dest: commit_db_typed)

section \<open>Claiming a task\<close>

text \<open>
  Claim C10. An actor whose role is not \<^verbatim>\<open>"worker"\<close> gets 403 "Only workers can claim
  tasks" from the claim operation for every task id, whether a task with that id exists
  or not and whatever its state: the role is tested before the task is looked up, so such
  an actor sees neither 404 nor 400. The store is returned as it was.
\<close>

theorem claim_task_non_worker_forbidden:
  "role current_user \<noteq> ''worker'' \<Longrightarrow>
   claim_task d current_user task_id =
     (d, Inl (HTTPException 403 ''Only workers can claim tasks''))"
  by (simp add: claim_task_def)

text \<open>The client alice claims a task id that no task has.\<close>

theorem claim_task_non_worker_forbidden_witness:
  "claim_task store0 alice 99 =
     (store0, Inl (HTTPException 403 ''Only workers can claim tasks''))"
  using claim_task_non_worker_forbidden [of alice store0 99]
  by (simp add: alice_def)

text \<open>
  Claim C1. For a worker \<open>w\<close> of the store and a task \<open>t\<close> of the store with status
  \<^verbatim>\<open>"open"\<close> and no assignee, the claim operation succeeds: it returns the task with
  \<^verbatim>\<open>assignee_id\<close> set to the worker's id and \<^verbatim>\<open>status\<close> set to \<^verbatim>\<open>"assigned"\<close>, and
  the store it leaves differs from the old one in that one row, written with both
  fields by the single UPDATE of the commit.
\<close>

theorem claim_task_open_unassigned:
  assumes "db_ok d" and "w \<in> set (users d)" and "role w = ''worker''"
    and "t \<in> set (tasks d)" and "task.status t = Some ''open''" and "task.assignee_id t = None"
  shows "claim_task d w (task.id' t) =
           (d\<lparr>tasks := map (\<lambda>x. if task.id' x = task.id' t
                                 then t\<lparr>task.assignee_id := Some (user.id' w),
                                        task.status := Some ''assigned''\<rparr>
                                 else x) (tasks d)\<rparr>,
            Inr (t\<lparr>task.assignee_id := Some (user.id' w), task.status := Some ''assigned''\<rparr>))"
proof -
  let ?t2 = "t\<lparr>task.assignee_id := Some (user.id' w), task.status := Some ''assigned''\<rparr>"
  let ?d' = "d\<lparr>tasks := map (\<lambda>x. if task.id' x = task.id' t then ?t2 else x) (tasks d)\<rparr>"
  have sel: "select_task d (task.id' t) = [t]"
    using assms(1,4) by (rule select_task_unique)
  have "task_row_ok d t" using assms(1,4) by (rule task_row_ok_in)
  then have ok: "task_row_ok d ?t2"
    using assms(2) by (simp add: task_row_ok_def user_ids_def)
  have "task_sets_ok t ?t2"
    by (simp add: task_sets_ok_def sets_ok_def text_ok_def)
  then have "\<not> (\<exists>old \<in> set (tasks d). task.id' old = task.id' ?t2 \<and> \<not> task_sets_ok old ?t2)"
    using task_sets_ok_row [OF assms(1,4), of ?t2] by simp
  then have com: "commit d [Update_task ?t2] = Inr ?d'"
    using ok by (simp add: commit_def)
  have "find (\<lambda>x. task.id' x = task.id' t)
          (map (\<lambda>x. if task.id' x = task.id' ?t2 then ?t2 else x) (tasks d)) = Some ?t2"
    using assms(4) by (intro find_key_replaced) simp_all
  then have ref: "refresh_task ?d' ?t2 = Inr ?t2"
    by (simp add: refresh_task_def)
  show ?thesis
    unfolding claim_task_def using assms(3,5,6) sel com ref by (simp add: Let_def)
qed

text \<open>The worker bob claims the open task 20 of the sample store.\<close>

theorem claim_task_open_unassigned_witness:
  "claim_task store0 bob 20 =
     (store0\<lparr>tasks :=
        [task_open\<lparr>task.assignee_id := Some 2, task.status := Some ''assigned''\<rparr>,
         task_taken, task_other]\<rparr>,
      Inr (task_open\<lparr>task.assignee_id := Some 2, task.status := Some ''assigned''\<rparr>))"
  using claim_task_open_unassigned [OF store0_ok, of bob task_open]
  by (simp add: sample_defs)

text \<open>
  Claim C2, as the code has it. For an actor whose role is \<^verbatim>\<open>"worker"\<close> and a task of
  the store whose status is not \<^verbatim>\<open>"open"\<close> or whose assignee is set, the claim operation
  fails with 400 "Task is not available for claiming" and leaves the store, the task
  included, as it was. (An actor with another role gets 403: see C10.)
\<close>

theorem claim_task_unavailable:
  assumes "db_ok d" and "role w = ''worker''" and "t \<in> set (tasks d)"
    and "task.status t \<noteq> Some ''open'' \<or> task.assignee_id t \<noteq> None"
  shows "claim_task d w (task.id' t) =
           (d, Inl (HTTPException 400 ''Task is not available for claiming''))"
proof -
  have "select_task d (task.id' t) = [t]"
    using assms(1,3) by (rule select_task_unique)
  then show ?thesis
    unfolding claim_task_def using assms(2,4) by auto
qed

text \<open>The worker dave claims task 21, which is assigned to bob.\<close>

theorem claim_task_unavailable_witness:
  "claim_task store0 dave 21 =
     (store0, Inl (HTTPException 400 ''Task is not available for claiming''))"
  using claim_task_unavailable [OF store0_ok, of dave task_taken]
  by (simp add: sample_defs)

text \<open>
  Claim C2 as stated ("regardless of the actor's role") fails: the client alice claims
  the same assigned task and gets 403, not 400.
\<close>

theorem claim_task_unavailable_client_counterexample:
  "task_taken \<in> set (tasks store0) \<and> task.id' task_taken = 21 \<and>
   task.status task_taken \<noteq> Some ''open'' \<and> task.assignee_id task_taken \<noteq> None \<and>
   claim_task store0 alice 21 =
     (store0, Inl (HTTPException 403 ''Only workers can claim tasks'')) \<and>
   snd (claim_task store0 alice 21) \<noteq>
     Inl (HTTPException 400 ''Task is not available for claiming'')"
  by (simp add: claim_task_def sample_defs)

section \<open>Listing tasks\<close>

text \<open>
  Claim C5. For an actor whose role is \<^verbatim>\<open>"worker"\<close>, every store and every choice of the
  query parameters, the task list either is refused by the database (a \<^verbatim>\<open>skip\<close> or
  \<^verbatim>\<open>limit\<close> that is negative or beyond 64 bits, a \<^verbatim>\<open>status\<close> with the character NUL)
  or holds only tasks of the store with status \<^verbatim>\<open>"open"\<close> and no assignee; in particular
  it holds no task with another status, assigned to the worker or not.
\<close>

theorem get_tasks_worker_open_unassigned:
  assumes "role w = ''worker''"
  shows "case get_tasks d w pid st skip limit of
           Inl e \<Rightarrow>
             e = DBAPIError \<and>
             (skip < 0 \<or> limit < 0 \<or> 9223372036854775808 \<le> skip \<or>
              9223372036854775808 \<le> limit \<or> \<not> column_ok text_ok st)
         | Inr ts \<Rightarrow>
             0 \<le> skip \<and> 0 \<le> limit \<and>
             (\<forall>t \<in> set ts. t \<in> set (tasks d) \<and>
                task.status t = Some ''open'' \<and> task.assignee_id t = None) \<and>
             (\<forall>t \<in> set ts. task.status t \<noteq> Some ''open'' \<longrightarrow>
                task.assignee_id t = Some (user.id' w)) \<and>
             skip < 9223372036854775808 \<and> limit < 9223372036854775808 \<and>
             column_ok text_ok st"
proof (cases "skip < 0 \<or> limit < 0 \<or> 9223372036854775808 \<le> skip \<or>
              9223372036854775808 \<le> limit \<or> \<not> column_ok text_ok st")
  case True
  then show ?thesis by (simp add: get_tasks_def Let_def)
next
  case False
  define q1 where
    "q1 = filter (\<lambda>t. task.status t = Some ''open'' \<and> task.assignee_id t = None) (tasks d)"
  define q2 where
    "q2 = (case pid of None \<Rightarrow> q1 | Some i \<Rightarrow> filter (\<lambda>t. task.project_id t = i) q1)"
  define q3 where
    "q3 = (if st = None \<or> st = Some [] then q2 else filter (\<lambda>t. task.status t = st) q2)"
  have res: "get_tasks d w pid st skip limit = Inr (take (nat limit) (drop (nat skip) q3))"
    unfolding get_tasks_def Let_def q1_def q2_def q3_def using False assms by simp
  have "set q3 \<subseteq> set q2" by (auto simp: q3_def)
  moreover have "set q2 \<subseteq> set q1" by (auto simp: q2_def split: option.splits)
  ultimately have sub: "set (take (nat limit) (drop (nat skip) q3)) \<subseteq> set q1"
    by (meson in_set_dropD in_set_takeD subsetD subsetI)
  have "\<forall>t \<in> set q1. t \<in> set (tasks d) \<and>
          task.status t = Some ''open'' \<and> task.assignee_id t = None"
    by (simp add: q1_def)
  with sub have "\<forall>t \<in> set (take (nat limit) (drop (nat skip) q3)).
      t \<in> set (tasks d) \<and> task.status t = Some ''open'' \<and> task.assignee_id t = None"
    by blast
  with False res show ?thesis by simp
qed

text \<open>The worker bob lists the tasks of the sample store: the assigned task 21 is left out.\<close>

theorem get_tasks_worker_open_unassigned_witness:
  "get_tasks store0 bob None None 0 100 = Inr [task_open, task_other] \<and>
   task.status task_open = Some ''open'' \<and> task.assignee_id task_open = None \<and>
   task.status task_other = Some ''open'' \<and> task.assignee_id task_other = None"
  using get_tasks_worker_open_unassigned
    [where w = bob and d = store0 and pid = None and st = None and skip = 0 and limit = 100]
  by (simp add: get_tasks_def sample_defs)

text \<open>
  A limit of \<open>2 ^ 63\<close> does not fit the 64-bit integer of the database, and the request
  returns no list.
\<close>

lemma get_tasks_limit_too_large:
  "get_tasks store0 bob None None 0 (2 ^ 63) = Inl DBAPIError"
  by (simp add: get_tasks_def)

section \<open>Reading a project\<close>

text \<open>
  Claim C6. Reading a project by id: an id that no project of the store has gives 404 to
  every actor; a client who reads an existing project of another client gets 403; and
  an actor whose role is \<^verbatim>\<open>"worker"\<close> reads every existing project, whoever owns it.
\<close>

theorem get_project_outcomes:
  "(pid \<notin> project_ids d \<longrightarrow>
      get_project d actor pid = Inl (HTTPException 404 ''Project not found'')) \<and>
   (db_ok d \<and> p \<in> set (projects d) \<and> role c = ''client'' \<and>
    project.client_id p \<noteq> user.id' c \<longrightarrow>
      get_project d c (project.id' p) =
        Inl (HTTPException 403 ''Not authorized to view this project'')) \<and>
   (db_ok d \<and> p' \<in> set (projects d) \<and> role w = ''worker'' \<longrightarrow>
      get_project d w (project.id' p') = Inr p')"
proof (intro conjI impI)
  assume "pid \<notin> project_ids d"
  then have "select_project d pid = []"
    unfolding select_project_def project_ids_def by (rule filter_key_absent)
  then show "get_project d actor pid = Inl (HTTPException 404 ''Project not found'')"
    by (simp add: get_project_def)
next
  assume a: "db_ok d \<and> p \<in> set (projects d) \<and> role c = ''client'' \<and>
    project.client_id p \<noteq> user.id' c"
  then have "select_project d (project.id' p) = [p]"
    by (simp add: select_project_unique)
  with a show "get_project d c (project.id' p) =
        Inl (HTTPException 403 ''Not authorized to view this project'')"
    by (simp add: get_project_def)
next
  assume a: "db_ok d \<and> p' \<in> set (projects d) \<and> role w = ''worker''"
  then have "select_project d (project.id' p') = [p']"
    by (simp add: select_project_unique)
  with a show "get_project d w (project.id' p') = Inr p'"
    by (simp add: get_project_def)
qed

text \<open>
  In the sample store: no project has id 99; project 11 belongs to carol, and the client
  alice may not read it while the worker bob may.
\<close>

theorem get_project_outcomes_witness:
  "get_project store0 dave 99 = Inl (HTTPException 404 ''Project not found'') \<and>
   get_project store0 alice 11 =
     Inl (HTTPException 403 ''Not authorized to view this project'') \<and>
   get_project store0 bob 11 = Inr project_b"
  using get_project_outcomes
    [where pid = 99 and d = store0 and actor = dave and p = project_b and c = alice
       and p' = project_b and w = bob] store0_ok
  by (simp add: sample_defs project_ids_def)

section \<open>Deleting a project\<close>

lemma flush_append:
  "flush (ws @ ws') d = (case flush ws d of Inl e \<Rightarrow> Inl e | Inr d' \<Rightarrow> flush ws' d')"
  by (induction ws arbitrary: d) (auto split: sum.splits)

lemma flush_delete_tasks:
  "flush (map Delete_task is) d =
     Inr (d\<lparr>tasks := filter (\<lambda>x. task.id' x \<notin> set is) (tasks d)\<rparr>)"
proof (induction "is" arbitrary: d)
  case Nil
  then show ?case by simp
next
  case (Cons i "is")
  have "filter (\<lambda>x. task.id' x \<notin> set is) (filter (\<lambda>x. task.id' x \<noteq> i) (tasks d)) =
        filter (\<lambda>x. task.id' x \<notin> set (i # is)) (tasks d)"
    by (auto intro: filter_cong)
  then show ?case by (simp add: Cons.IH)
qed

lemma cascade_filter:
  assumes "distinct (map task.id' ts)"
  shows "filter (\<lambda>x. task.id' x \<notin> set (map task.id' (filter (\<lambda>t. task.project_id t = i) ts))) ts =
         filter (\<lambda>t. task.project_id t \<noteq> i) ts"
proof (rule filter_cong [OF refl])
  fix x assume x: "x \<in> set ts"
  from assms have inj: "inj_on task.id' (set ts)" by (simp add: distinct_map)
  show "(task.id' x \<notin> set (map task.id' (filter (\<lambda>t. task.project_id t = i) ts))) =
        (task.project_id x \<noteq> i)"
  proof
    assume "task.id' x \<notin> set (map task.id' (filter (\<lambda>t. task.project_id t = i) ts))"
    with x show "task.project_id x \<noteq> i" by auto
  next
    assume n: "task.project_id x \<noteq> i"
    show "task.id' x \<notin> set (map task.id' (filter (\<lambda>t. task.project_id t = i) ts))"
    proof
      assume "task.id' x \<in> set (map task.id' (filter (\<lambda>t. task.project_id t = i) ts))"
      then obtain t where t: "t \<in> set ts" "task.project_id t = i" "task.id' t = task.id' x"
        by auto
      with inj x have "t = x" by (auto dest: inj_onD)
      with t n show False by simp
    qed
  qed
qed

lemma commit_delete_project:
  assumes "db_ok d"
  shows "commit d (session_delete_project d p) =
           Inr (d\<lparr>projects := filter (\<lambda>x. project.id' x \<noteq> project.id' p) (projects d),
                  tasks := filter (\<lambda>t. task.project_id t \<noteq> project.id' p) (tasks d)\<rparr>)"
proof -
  let ?ts = "filter (\<lambda>t. task.project_id t \<noteq> project.id' p) (tasks d)"
  from assms have dist: "distinct (map task.id' (tasks d))" by (simp add: db_ok_def)
  have "map (\<lambda>t. Delete_task (task.id' t)) (project_tasks d p) =
        map Delete_task (map task.id' (project_tasks d p))"
    by simp
  then have "flush (map (\<lambda>t. Delete_task (task.id' t)) (project_tasks d p)) d =
        Inr (d\<lparr>tasks := filter (\<lambda>x. task.id' x \<notin> set (map task.id' (project_tasks d p))) (tasks d)\<rparr>)"
    by (simp only: flush_delete_tasks)
  also have "filter (\<lambda>x. task.id' x \<notin> set (map task.id' (project_tasks d p))) (tasks d) = ?ts"
    unfolding project_tasks_def using dist by (rule cascade_filter)
  finally have 1: "flush (map (\<lambda>t. Delete_task (task.id' t)) (project_tasks d p)) d =
        Inr (d\<lparr>tasks := ?ts\<rparr>)" .
  have 2: "flush [Delete_project (project.id' p)] (d\<lparr>tasks := ?ts\<rparr>) =
        Inr (d\<lparr>tasks := ?ts,
               projects := filter (\<lambda>x. project.id' x \<noteq> project.id' p) (projects d)\<rparr>)"
    by simp
  show ?thesis
    unfolding commit_def session_delete_project_def flush_append 1 using 2 by simp
qed

text \<open>
  Claim C3. When a client deletes a project it owns, the operation succeeds and the
  store it leaves has lost the project and every task whose \<^verbatim>\<open>project_id\<close> is the
  project's id, and nothing else: the DELETEs of the tasks and of the project are flushed
  by the one commit. Whenever the operation ends in an error, for whatever actor and id,
  the store is the old one, with the project and all its tasks.
\<close>

theorem delete_project_cascade:
  "(db_ok d \<and> p \<in> set (projects d) \<and> role c = ''client'' \<and>
    project.client_id p = user.id' c \<longrightarrow>
      (\<exists>d'. delete_project d c (project.id' p) =
               (d', Inr [(''message'', ''Project deleted successfully'')]) \<and>
            d' = d\<lparr>projects := filter (\<lambda>x. project.id' x \<noteq> project.id' p) (projects d),
                    tasks := filter (\<lambda>t. task.project_id t \<noteq> project.id' p) (tasks d)\<rparr> \<and>
            project.id' p \<notin> project_ids d' \<and>
            (\<forall>t \<in> set (tasks d'). task.project_id t \<noteq> project.id' p))) \<and>
   (\<forall>d' e. delete_project d actor pid = (d', Inl e) \<longrightarrow> d' = d)"
proof (intro conjI impI allI)
  assume a: "db_ok d \<and> p \<in> set (projects d) \<and> role c = ''client'' \<and>
    project.client_id p = user.id' c"
  then have sel: "select_project d (project.id' p) = [p]"
    by (simp add: select_project_unique)
  from a have com: "commit d (session_delete_project d p) =
           Inr (d\<lparr>projects := filter (\<lambda>x. project.id' x \<noteq> project.id' p) (projects d),
                  tasks := filter (\<lambda>t. task.project_id t \<noteq> project.id' p) (tasks d)\<rparr>)"
    by (simp add: commit_delete_project)
  show "\<exists>d'. delete_project d c (project.id' p) =
               (d', Inr [(''message'', ''Project deleted successfully'')]) \<and>
            d' = d\<lparr>projects := filter (\<lambda>x. project.id' x \<noteq> project.id' p) (projects d),
                    tasks := filter (\<lambda>t. task.project_id t \<noteq> project.id' p) (tasks d)\<rparr> \<and>
            project.id' p \<notin> project_ids d' \<and>
            (\<forall>t \<in> set (tasks d'). task.project_id t \<noteq> project.id' p)"
    unfolding delete_project_def using a sel com by (auto simp: project_ids_def)
next
  fix d' e
  assume "delete_project d actor pid = (d', Inl e)"
  then show "d' = d"
    unfolding delete_project_def
    by (auto split: sum.splits option.splits if_splits)
qed

text \<open>
  alice deletes her project 10 and its tasks 20 and 21 go with it; her attempt on carol's
  project 11 is refused and changes nothing.
\<close>

theorem delete_project_cascade_witness:
  "delete_project store0 alice 10 =
     (store0\<lparr>projects := [project_b], tasks := [task_other]\<rparr>,
      Inr [(''message'', ''Project deleted successfully'')]) \<and>
   delete_project store0 alice 11 =
     (store0, Inl (HTTPException 403 ''Not authorized to delete this project''))"
  using delete_project_cascade
    [where d = store0 and p = project_a and c = alice and actor = alice and pid = 11]
    store0_ok
  by (simp add: sample_defs delete_project_def select_project_def)

section \<open>Marking all notifications read\<close>

text \<open>
  Flushing the UPDATEs of a batch \<open>S\<close> of rows of the table, each with \<^verbatim>\<open>read\<close> set: the
  rows of \<open>S\<close> join the set \<open>A\<close> of rows already marked.
\<close>

lemma flush_mark_notifications:
  assumes "distinct (map notification.id' ns)"
    and "\<forall>n \<in> set ns. notification_row_ok d n"
    and "set S \<subseteq> set ns"
  shows "flush (map Update_notification (map (\<lambda>n. n\<lparr>notification.read := Some True\<rparr>) S))
           (d\<lparr>notifications :=
                map (\<lambda>x. if x \<in> A then x\<lparr>notification.read := Some True\<rparr> else x) ns\<rparr>) =
         Inr (d\<lparr>notifications :=
                map (\<lambda>x. if x \<in> A \<union> set S then x\<lparr>notification.read := Some True\<rparr> else x) ns\<rparr>)"
  using assms(3)
proof (induction S arbitrary: A)
  case Nil
  then show ?case by simp
next
  case (Cons s S)
  let ?m = "\<lambda>n. n\<lparr>notification.read := Some True\<rparr>"
  let ?g = "\<lambda>A x. if x \<in> A then ?m x else x"
  from Cons.prems have s: "s \<in> set ns" and S: "set S \<subseteq> set ns" by auto
  from assms(1) have inj: "inj_on notification.id' (set ns)" by (simp add: distinct_map)
  have ok: "notification_row_ok (d\<lparr>notifications := map (?g A) ns\<rparr>) (?m s)"
    using assms(2) s by (simp add: notification_row_ok_def user_ids_def)
  have step: "map (\<lambda>x. if notification.id' x = notification.id' (?m s) then ?m s else x)
                (map (?g A) ns) = map (?g (insert s A)) ns"
  proof (rule list.map_cong0 [THEN trans [OF list.map_comp]])
    fix x assume x: "x \<in> set ns"
    have "notification.id' x = notification.id' s \<longleftrightarrow> x = s"
      using inj x s by (auto dest: inj_onD)
    then show "((\<lambda>x. if notification.id' x = notification.id' (?m s) then ?m s else x) \<circ> ?g A) x =
          ?g (insert s A) x"
      by auto
  qed
  have "apply_write (Update_notification (?m s)) (d\<lparr>notifications := map (?g A) ns\<rparr>) =
        Inr (d\<lparr>notifications := map (?g (insert s A)) ns\<rparr>)"
    using ok step by simp
  moreover have "insert s A \<union> set S = A \<union> set (s # S)" by auto
  ultimately show ?case
    using Cons.IH [OF S, of "insert s A"] by simp
qed

text \<open>
  Claim C8, as the code has it. For every user, marking all notifications read sets
  \<^verbatim>\<open>read\<close> on every notification of the user whose \<^verbatim>\<open>read\<close> was false and changes no
  other notification and no other table. The result is a JSON object with the one key
  \<^verbatim>\<open>message\<close>; its text "Marked N notifications as read" holds the number N of
  notifications flipped, in decimal.
\<close>

theorem mark_all_notifications_read_message:
  assumes "db_ok d"
  shows "mark_all_notifications_read d u =
           (d\<lparr>notifications :=
                map (\<lambda>n. if notification.user_id n = user.id' u \<and>
                             notification.read n = Some False
                          then n\<lparr>notification.read := Some True\<rparr> else n)
                  (notifications d)\<rparr>,
            Inr [(''message'',
                  ''Marked '' @
                  str (length (filter (\<lambda>n. notification.user_id n = user.id' u \<and>
                                            notification.read n = Some False)
                                 (notifications d))) @
                  '' notifications as read'')])"
proof -
  let ?P = "\<lambda>n. notification.user_id n = user.id' u \<and> notification.read n = Some False"
  let ?ns = "notifications d"
  from assms have dist: "distinct (map notification.id' ?ns)"
    and ok: "\<forall>n \<in> set ?ns. notification_row_ok d n"
    by (simp_all add: db_ok_def)
  have "flush (map Update_notification
                 (map (\<lambda>n. n\<lparr>notification.read := Some True\<rparr>) (filter ?P ?ns)))
          (d\<lparr>notifications :=
               map (\<lambda>x. if x \<in> {} then x\<lparr>notification.read := Some True\<rparr> else x) ?ns\<rparr>) =
        Inr (d\<lparr>notifications :=
               map (\<lambda>x. if x \<in> {} \<union> set (filter ?P ?ns)
                        then x\<lparr>notification.read := Some True\<rparr> else x) ?ns\<rparr>)"
    using dist ok by (rule flush_mark_notifications) simp
  moreover have "map (\<lambda>x. if x \<in> {} \<union> set (filter ?P ?ns)
                        then x\<lparr>notification.read := Some True\<rparr> else x) ?ns =
                 map (\<lambda>n. if ?P n then n\<lparr>notification.read := Some True\<rparr> else n) ?ns"
    by (rule map_cong) auto
  ultimately have "commit d (map Update_notification
                 (map (\<lambda>n. n\<lparr>notification.read := Some True\<rparr>) (filter ?P ?ns))) =
        Inr (d\<lparr>notifications :=
               map (\<lambda>n. if ?P n then n\<lparr>notification.read := Some True\<rparr> else n) ?ns\<rparr>)"
    by (simp add: commit_def)
  then show ?thesis
    by (simp add: mark_all_notifications_read_def Let_def)
qed

text \<open>
  bob has three unread and two read notifications: the message says 3, all five are read
  afterwards, and the unread notification 33 of alice stays unread.
\<close>

theorem mark_all_notifications_read_message_witness:
  "mark_all_notifications_read store0 bob =
     (store0\<lparr>notifications :=
        [notif 30 2 True, notif 31 2 True, notif 32 2 True, notif 33 1 False,
         notif 34 2 True, notif 35 2 True]\<rparr>,
      Inr [(''message'', ''Marked 3 notifications as read'')])"
  using mark_all_notifications_read_message [OF store0_ok, of bob]
  by (simp add: sample_defs str.simps digit_def)

text \<open>
  Claim C8 as stated (a result with a \<^verbatim>\<open>count\<close> field) fails: for the same request the
  result has the key \<^verbatim>\<open>message\<close> and no key \<^verbatim>\<open>count\<close>.
\<close>

theorem mark_all_notifications_read_count_counterexample:
  "length (filter (\<lambda>n. notification.user_id n = user.id' bob \<and> notification.read n = Some False)
     (notifications store0)) = 3 \<and>
   length (filter (\<lambda>n. notification.user_id n = user.id' bob \<and> notification.read n = Some True)
     (notifications store0)) = 2 \<and>
   (case snd (mark_all_notifications_read store0 bob) of
      Inl e \<Rightarrow> False
    | Inr response \<Rightarrow> map fst response = [''message''] \<and> map_of response ''count'' = None)"
  by (simp add: sample_defs mark_all_notifications_read_def commit_def store_defs)

section \<open>Partial updates\<close>

text \<open>
  The \<^verbatim>\<open>setattr\<close> loop over the items of a request builds the row that the spec's
  partial patch describes.
\<close>

lemma foldl_item:
  "foldl f a (item c v) = (case v of None \<Rightarrow> a | Some x \<Rightarrow> f a (c x))"
  by (simp add: item_def split: option.splits)

lemma setattr_project_loop:
  "foldl setattr_project p (ProjectUpdate_dict u) = project_patched u p"
proof -
  have 1: "\<And>q v. foldl setattr_project q (item P_title v) =
             q\<lparr>project.title := overwrite v (project.title q)\<rparr>"
    and 2: "\<And>q v. foldl setattr_project q (item P_description v) =
             q\<lparr>project.description := overwrite v (project.description q)\<rparr>"
    and 3: "\<And>q v. foldl setattr_project q (item P_tags v) =
             q\<lparr>project.tags := overwrite v (project.tags q)\<rparr>"
    and 4: "\<And>q v. foldl setattr_project q (item P_budget v) =
             q\<lparr>project.budget := overwrite v (project.budget q)\<rparr>"
    and 5: "\<And>q v. foldl setattr_project q (item P_status v) =
             q\<lparr>project.status := overwrite v (project.status q)\<rparr>"
    by (simp_all add: foldl_item overwrite_def split: option.splits)
  show ?thesis
    unfolding ProjectUpdate_dict_def project_patched_def foldl_append 1 2 3 4 5 by simp
qed

lemma setattr_task_loop:
  "foldl setattr_task t (TaskUpdate_dict u) = task_patched u t"
proof -
  have 1: "\<And>q v. foldl setattr_task q (item T_title v) =
             q\<lparr>task.title := overwrite v (task.title q)\<rparr>"
    and 2: "\<And>q v. foldl setattr_task q (item T_description v) =
             q\<lparr>task.description := overwrite v (task.description q)\<rparr>"
    and 3: "\<And>q v. foldl setattr_task q (item T_weight v) =
             q\<lparr>task.weight := overwrite v (task.weight q)\<rparr>"
    and 4: "\<And>q v. foldl setattr_task q (item T_payout v) =
             q\<lparr>task.payout := overwrite v (task.payout q)\<rparr>"
    and 5: "\<And>q v. foldl setattr_task q (item T_deadline v) =
             q\<lparr>task.deadline := overwrite v (task.deadline q)\<rparr>"
    and 6: "\<And>q v. foldl setattr_task q (item T_status v) =
             q\<lparr>task.status := overwrite v (task.status q)\<rparr>"
    and 7: "\<And>q v. foldl setattr_task q (item T_assignee_id v) =
             q\<lparr>task.assignee_id := overwrite v (task.assignee_id q)\<rparr>"
    and 8: "\<And>q v. foldl setattr_task q (item T_pricing_type v) =
             q\<lparr>task.pricing_type := overwrite v (task.pricing_type q)\<rparr>"
    and 9: "\<And>q v. foldl setattr_task q (item T_hourly_rate v) =
             q\<lparr>task.hourly_rate := overwrite v (task.hourly_rate q)\<rparr>"
    and 10: "\<And>q v. foldl setattr_task q (item T_estimated_hours v) =
             q\<lparr>task.estimated_hours := overwrite v (task.estimated_hours q)\<rparr>"
    and 11: "\<And>q v. foldl setattr_task q (item T_required_skills v) =
             q\<lparr>task.required_skills := overwrite v (task.required_skills q)\<rparr>"
    and 12: "\<And>q v. foldl setattr_task q (item T_auto_assign v) =
             q\<lparr>task.auto_assign := overwrite v (task.auto_assign q)\<rparr>"
    by (simp_all add: foldl_item overwrite_def split: option.splits)
  show ?thesis
    unfolding TaskUpdate_dict_def task_patched_def foldl_append 1 2 3 4 5 6 7 8 9 10 11 12
    by simp
qed

text \<open>
  One field of a patched row against the request: the value is accepted by the type of
  the column when the request sends none or one that fits, and a \<^verbatim>\<open>nullable=False\<close>
  column keeps a value unless the request sends \<^verbatim>\<open>null\<close>.
\<close>

lemma sets_ok_overwrite:
  "column_ok P old \<Longrightarrow> sets_ok P old (overwrite v old) \<longleftrightarrow> column_ok (column_ok P) v"
proof (cases v)
  case None
  then show ?thesis by (simp add: sets_ok_def overwrite_def)
next
  case (Some x)
  assume "column_ok P old"
  with Some show ?thesis by (cases x) (auto simp: sets_ok_def overwrite_def)
qed

lemma sets_ok_same: "sets_ok P old old"
  by (simp add: sets_ok_def)

lemma overwrite_not_None: "old \<noteq> None \<Longrightarrow> overwrite v old \<noteq> None \<longleftrightarrow> v \<noteq> Some None"
  by (cases v) (simp_all add: overwrite_def)

lemma project_sets_ok_patched:
  "project_types_ok p \<Longrightarrow> project_sets_ok p (project_patched u p) \<longleftrightarrow> ProjectUpdate_typed u"
  by (simp add: project_types_ok_def project_sets_ok_def project_patched_def
      ProjectUpdate_typed_def sets_ok_overwrite)

lemma task_sets_ok_patched:
  "task_types_ok t \<Longrightarrow> task_sets_ok t (task_patched u t) \<longleftrightarrow> TaskUpdate_typed u"
  by (simp add: task_types_ok_def task_sets_ok_def task_patched_def
      TaskUpdate_typed_def sets_ok_overwrite sets_ok_same)

lemma project_row_ok_patched:
  "project_row_ok d p \<Longrightarrow>
   project_row_ok d (project_patched u p) \<longleftrightarrow>
     ProjectUpdate.title u \<noteq> Some None \<and> ProjectUpdate.description u \<noteq> Some None \<and>
     ProjectUpdate.budget u \<noteq> Some None"
  using overwrite_not_None [of "project.title p" "ProjectUpdate.title u"]
    overwrite_not_None [of "project.description p" "ProjectUpdate.description u"]
    overwrite_not_None [of "project.budget p" "ProjectUpdate.budget u"]
  unfolding project_row_ok_def project_patched_def by auto

lemma column_ok_member: "column_ok (\<lambda>a. a \<in> A) v \<longleftrightarrow> set_option v \<subseteq> A"
  by (cases v) simp_all

lemma set_option_overwrite:
  "set_option old \<subseteq> A \<Longrightarrow>
   set_option (overwrite v old) \<subseteq> A \<longleftrightarrow> column_ok (column_ok (\<lambda>a. a \<in> A)) v"
proof (cases v)
  case None
  assume "set_option old \<subseteq> A"
  with None show ?thesis by (simp add: overwrite_def)
next
  case (Some x)
  then show ?thesis by (cases x) (simp_all add: overwrite_def)
qed

lemma task_row_ok_patched:
  "task_row_ok d t \<Longrightarrow>
   task_row_ok d (task_patched u t) \<longleftrightarrow>
     TaskUpdate.title u \<noteq> Some None \<and> TaskUpdate.description u \<noteq> Some None \<and>
     TaskUpdate.payout u \<noteq> Some None \<and>
     column_ok (column_ok (\<lambda>a. a \<in> user_ids d)) (TaskUpdate.assignee_id u)"
  using overwrite_not_None [of "task.title t" "TaskUpdate.title u"]
    overwrite_not_None [of "task.description t" "TaskUpdate.description u"]
    overwrite_not_None [of "task.payout t" "TaskUpdate.payout u"]
    set_option_overwrite [of "task.assignee_id t" "user_ids d" "TaskUpdate.assignee_id u"]
  unfolding task_row_ok_def task_patched_def by auto

text \<open>
  An update by an actor whom the endpoint lets through: the patched row is written when
  the store accepts it; when a value does not fit its column or a constraint is broken
  the commit fails and the store stays as it was.
\<close>

lemma update_project_owner:
  assumes "db_ok d" and "p \<in> set (projects d)" and "project.client_id p = user.id' c"
  shows "update_project d c (project.id' p) u =
           (if \<not> project_sets_ok p (project_patched u p) then (d, Inl DBAPIError)
            else if \<not> project_row_ok d (project_patched u p) then (d, Inl IntegrityError)
            else
              (d\<lparr>projects := map (\<lambda>x. if project.id' x = project.id' p
                                        then project_patched u p else x) (projects d)\<rparr>,
               Inr (project_patched u p)))"
proof -
  let ?p' = "project_patched u p"
  have id: "project.id' ?p' = project.id' p" by (simp add: project_patched_def)
  have sel: "select_project d (project.id' p) = [p]"
    using assms(1,2) by (rule select_project_unique)
  have ty: "(\<exists>old \<in> set (projects d). project.id' old = project.id' p \<and>
                \<not> project_sets_ok old ?p') \<longleftrightarrow> \<not> project_sets_ok p ?p'"
    using project_sets_ok_row [OF assms(1,2) id] by (simp add: id)
  have "find (\<lambda>x. project.id' x = project.id' p)
          (map (\<lambda>x. if project.id' x = project.id' ?p' then ?p' else x) (projects d)) = Some ?p'"
    using assms(2) id by (intro find_key_replaced) simp_all
  then have ref: "refresh_project
      (d\<lparr>projects := map (\<lambda>x. if project.id' x = project.id' p then ?p' else x) (projects d)\<rparr>)
      ?p' = Inr ?p'"
    by (simp add: refresh_project_def id)
  show ?thesis
    unfolding update_project_def Let_def setattr_project_loop
    using assms(3) sel ref ty by (simp add: commit_def id)
qed

lemma update_task_authorised:
  assumes "db_ok d" and "t \<in> set (tasks d)"
    and "q \<in> set (projects d)" and "project.id' q = task.project_id t"
    and "role c = ''client'' \<longrightarrow> project.client_id q = user.id' c"
    and "role c = ''worker'' \<longrightarrow> task.assignee_id t = Some (user.id' c)"
  shows "update_task d c (task.id' t) u =
           (if \<not> task_sets_ok t (task_patched u t) then (d, Inl DBAPIError)
            else if \<not> task_row_ok d (task_patched u t) then (d, Inl IntegrityError)
            else
              (d\<lparr>tasks := map (\<lambda>x. if task.id' x = task.id' t
                                     then task_patched u t else x) (tasks d)\<rparr>,
               Inr (task_patched u t)))"
proof -
  let ?t' = "task_patched u t"
  have id: "task.id' ?t' = task.id' t" by (simp add: task_patched_def)
  have sel: "select_task d (task.id' t) = [t]"
    using assms(1,2) by (rule select_task_unique)
  have ty: "(\<exists>old \<in> set (tasks d). task.id' old = task.id' t \<and> \<not> task_sets_ok old ?t')
               \<longleftrightarrow> \<not> task_sets_ok t ?t'"
    using task_sets_ok_row [OF assms(1,2) id] by (simp add: id)
  from assms(1) have "distinct (map project.id' (projects d))" by (simp add: db_ok_def)
  from find_key_unique [OF this assms(3)] assms(4)
  have proj: "task_project d t = Some q" by (simp add: task_project_def)
  have "find (\<lambda>x. task.id' x = task.id' t)
          (map (\<lambda>x. if task.id' x = task.id' ?t' then ?t' else x) (tasks d)) = Some ?t'"
    using assms(2) id by (intro find_key_replaced) simp_all
  then have ref: "refresh_task
      (d\<lparr>tasks := map (\<lambda>x. if task.id' x = task.id' t then ?t' else x) (tasks d)\<rparr>)
      ?t' = Inr ?t'"
    by (simp add: refresh_task_def id)
  show ?thesis
    unfolding update_task_def Let_def setattr_task_loop
    using assms(5,6) sel proj ref ty by (simp add: commit_def id)
qed

lemma task_types_ok_in: "db_typed d \<Longrightarrow> t \<in> set (tasks d) \<Longrightarrow> task_types_ok t"
  by (simp add: db_typed_def)

lemma project_types_ok_in: "db_typed d \<Longrightarrow> p \<in> set (projects d) \<Longrightarrow> project_types_ok p"
  by (simp add: db_typed_def)

text \<open>
  Claim C7, as the code has it. The owner of a project updates it. When the request
  gives no \<^verbatim>\<open>null\<close> to \<^verbatim>\<open>title\<close>, \<^verbatim>\<open>description\<close> or \<^verbatim>\<open>budget\<close> (the
  \<^verbatim>\<open>nullable=False\<close> columns) and every text it sends is free of the character NUL, the
  update succeeds, the row becomes the patched row (every field present in the request
  overwritten, also by \<^verbatim>\<open>null\<close>; every absent field, the id and the owner as before),
  and no other row changes. For every other request the update fails
  (\<^verbatim>\<open>DBAPIError\<close> for a value that does not fit its column, else \<^verbatim>\<open>IntegrityError\<close>)
  and the store is the old one. The same holds when the client who owns the parent
  project updates a task; there the store accepts a request that gives no \<^verbatim>\<open>null\<close> to
  \<^verbatim>\<open>title\<close>, \<^verbatim>\<open>description\<close> or \<^verbatim>\<open>payout\<close>, whose texts are free of NUL, whose
  \<^verbatim>\<open>weight\<close> and \<^verbatim>\<open>estimated_hours\<close> are 32-bit integers, whose \<^verbatim>\<open>deadline\<close> is an
  instant of the years 1 to 9999, and whose \<^verbatim>\<open>assignee_id\<close>, when present and not
  \<^verbatim>\<open>null\<close>, is the id of a user.
\<close>

theorem partial_update_overwrites_present_fields:
  "(db_ok d \<and> db_typed d \<and> p \<in> set (projects d) \<and> project.client_id p = user.id' c \<longrightarrow>
      update_project d c (project.id' p) pu =
        (if \<not> ProjectUpdate_typed pu then (d, Inl DBAPIError)
         else if ProjectUpdate.title pu = Some None \<or> ProjectUpdate.description pu = Some None \<or>
                 ProjectUpdate.budget pu = Some None
         then (d, Inl IntegrityError)
         else
           (d\<lparr>projects := map (\<lambda>x. if project.id' x = project.id' p
                                     then project_patched pu p else x) (projects d)\<rparr>,
            Inr (project_patched pu p)))) \<and>
   (db_ok d \<and> db_typed d \<and> t \<in> set (tasks d) \<and> q \<in> set (projects d) \<and>
    project.id' q = task.project_id t \<and> role c' = ''client'' \<and>
    project.client_id q = user.id' c' \<longrightarrow>
      update_task d c' (task.id' t) tu =
        (if \<not> TaskUpdate_typed tu then (d, Inl DBAPIError)
         else if TaskUpdate.title tu = Some None \<or> TaskUpdate.description tu = Some None \<or>
                 TaskUpdate.payout tu = Some None \<or>
                 \<not> column_ok (column_ok (\<lambda>a. a \<in> user_ids d)) (TaskUpdate.assignee_id tu)
         then (d, Inl IntegrityError)
         else
           (d\<lparr>tasks := map (\<lambda>x. if task.id' x = task.id' t
                                  then task_patched tu t else x) (tasks d)\<rparr>,
            Inr (task_patched tu t))))"
proof (intro conjI impI)
  assume a: "db_ok d \<and> db_typed d \<and> p \<in> set (projects d) \<and>
    project.client_id p = user.id' c"
  then have "project_row_ok d p" and "project_types_ok p"
    by (auto intro: project_row_ok_in project_types_ok_in)
  then have "project_sets_ok p (project_patched pu p) \<longleftrightarrow> ProjectUpdate_typed pu"
    and "project_row_ok d (project_patched pu p) \<longleftrightarrow>
           ProjectUpdate.title pu \<noteq> Some None \<and> ProjectUpdate.description pu \<noteq> Some None \<and>
           ProjectUpdate.budget pu \<noteq> Some None"
    by (simp_all add: project_sets_ok_patched project_row_ok_patched)
  moreover from a have "update_project d c (project.id' p) pu =
           (if \<not> project_sets_ok p (project_patched pu p) then (d, Inl DBAPIError)
            else if \<not> project_row_ok d (project_patched pu p) then (d, Inl IntegrityError)
            else
              (d\<lparr>projects := map (\<lambda>x. if project.id' x = project.id' p
                                        then project_patched pu p else x) (projects d)\<rparr>,
               Inr (project_patched pu p)))"
    by (intro update_project_owner) simp_all
  ultimately show "update_project d c (project.id' p) pu =
        (if \<not> ProjectUpdate_typed pu then (d, Inl DBAPIError)
         else if ProjectUpdate.title pu = Some None \<or> ProjectUpdate.description pu = Some None \<or>
                 ProjectUpdate.budget pu = Some None
         then (d, Inl IntegrityError)
         else
           (d\<lparr>projects := map (\<lambda>x. if project.id' x = project.id' p
                                     then project_patched pu p else x) (projects d)\<rparr>,
            Inr (project_patched pu p)))"
    by simp
next
  assume a: "db_ok d \<and> db_typed d \<and> t \<in> set (tasks d) \<and> q \<in> set (projects d) \<and>
    project.id' q = task.project_id t \<and> role c' = ''client'' \<and>
    project.client_id q = user.id' c'"
  then have "task_row_ok d t" and "task_types_ok t"
    by (auto intro: task_row_ok_in task_types_ok_in)
  then have "task_sets_ok t (task_patched tu t) \<longleftrightarrow> TaskUpdate_typed tu"
    and "task_row_ok d (task_patched tu t) \<longleftrightarrow>
           TaskUpdate.title tu \<noteq> Some None \<and> TaskUpdate.description tu \<noteq> Some None \<and>
           TaskUpdate.payout tu \<noteq> Some None \<and>
           column_ok (column_ok (\<lambda>a. a \<in> user_ids d)) (TaskUpdate.assignee_id tu)"
    by (simp_all add: task_sets_ok_patched task_row_ok_patched)
  moreover from a have "update_task d c' (task.id' t) tu =
           (if \<not> task_sets_ok t (task_patched tu t) then (d, Inl DBAPIError)
            else if \<not> task_row_ok d (task_patched tu t) then (d, Inl IntegrityError)
            else
              (d\<lparr>tasks := map (\<lambda>x. if task.id' x = task.id' t
                                     then task_patched tu t else x) (tasks d)\<rparr>,
               Inr (task_patched tu t)))"
    by (intro update_task_authorised [where q = q]) simp_all
  ultimately show "update_task d c' (task.id' t) tu =
        (if \<not> TaskUpdate_typed tu then (d, Inl DBAPIError)
         else if TaskUpdate.title tu = Some None \<or> TaskUpdate.description tu = Some None \<or>
                 TaskUpdate.payout tu = Some None \<or>
                 \<not> column_ok (column_ok (\<lambda>a. a \<in> user_ids d)) (TaskUpdate.assignee_id tu)
         then (d, Inl IntegrityError)
         else
           (d\<lparr>tasks := map (\<lambda>x. if task.id' x = task.id' t
                                  then task_patched tu t else x) (tasks d)\<rparr>,
            Inr (task_patched tu t)))"
    by simp
qed

text \<open>
  The spec's example: project 10 has title "A" and budget 10, and the request
  \<^verbatim>\<open>{"budget": 20}\<close> leaves the title. For task 21 the request
  \<^verbatim>\<open>{"payout": 8, "deadline": null}\<close> overwrites the payout and clears the deadline;
  the request \<^verbatim>\<open>{"weight": 2147483648}\<close> is refused and changes nothing.
\<close>

theorem partial_update_overwrites_present_fields_witness:
  "update_project store0 alice 10 budget_only =
     (store0\<lparr>projects := [project_a\<lparr>project.budget := Some 20\<rparr>, project_b]\<rparr>,
      Inr (project_a\<lparr>project.budget := Some 20\<rparr>)) \<and>
   project.title (project_a\<lparr>project.budget := Some 20\<rparr>) = Some ''A'' \<and>
   update_task store0 alice 21 payout_only =
     (store0\<lparr>tasks :=
        [task_open, task_taken\<lparr>task.payout := Some 8, task.deadline := None\<rparr>, task_other]\<rparr>,
      Inr (task_taken\<lparr>task.payout := Some 8, task.deadline := None\<rparr>)) \<and>
   update_task store0 alice 21 weight_too_large = (store0, Inl DBAPIError)"
  using partial_update_overwrites_present_fields
    [where d = store0 and p = project_a and c = alice and pu = budget_only
       and t = task_taken and q = project_a and c' = alice and tu = payout_only]
    partial_update_overwrites_present_fields
    [where d = store0 and p = project_a and c = alice and pu = budget_only
       and t = task_taken and q = project_a and c' = alice and tu = weight_too_large]
    store0_ok store0_typed
  by (simp add: sample_defs project_patched_def task_patched_def overwrite_def
      ProjectUpdate_unset_def TaskUpdate_unset_def budget_only_def payout_only_def
      weight_too_large_def ProjectUpdate_typed_def TaskUpdate_typed_def int32_ok_def
      datetime_ok_def user_ids_def)

text \<open>
  Claim C7 as stated (every partial update request) fails: the owner alice sends
  \<^verbatim>\<open>{"title": null, "budget": 20}\<close> for project 10; the commit raises
  \<^verbatim>\<open>IntegrityError\<close> on the \<^verbatim>\<open>nullable=False\<close> column and neither field is overwritten.
\<close>

theorem partial_update_null_title_counterexample:
  "project_a \<in> set (projects store0) \<and> project.id' project_a = 10 \<and>
   project.client_id project_a = user.id' alice \<and>
   ProjectUpdate.title null_title = Some None \<and>
   ProjectUpdate.budget null_title = Some (Some 20) \<and>
   update_project store0 alice 10 null_title = (store0, Inl IntegrityError) \<and>
   project.title project_a = Some ''A'' \<and> project.budget project_a = Some 10"
  by (simp add: sample_defs update_project_def select_project_def ProjectUpdate_dict_def
      item_def commit_def project_row_ok_def ProjectUpdate_unset_def null_title_def
      project_sets_ok_def sets_ok_def)

text \<open>
  A title with the character NUL is refused by the column and changes nothing, and so is
  a status with it.
\<close>

lemma update_project_nul_title:
  "update_project store0 alice 10
     (ProjectUpdate_unset\<lparr>ProjectUpdate.title := Some (Some [CHR ''a'', CHR 0x00, CHR ''b''])\<rparr>) =
   (store0, Inl DBAPIError)"
  by (simp add: sample_defs update_project_def select_project_def ProjectUpdate_dict_def
      item_def commit_def ProjectUpdate_unset_def project_sets_ok_def sets_ok_def text_ok_def)

lemma update_task_nul_status:
  "update_task store0 alice 21
     (TaskUpdate_unset\<lparr>TaskUpdate.status := Some (Some [CHR 0x00]),
                       TaskUpdate.assignee_id := Some (Some 4)\<rparr>) =
   (store0, Inl DBAPIError)"
  by (simp add: sample_defs update_task_def select_task_def task_project_def
      TaskUpdate_dict_def item_def commit_def task_sets_ok_def sets_ok_def text_ok_def
      TaskUpdate_unset_def)

text \<open>
  Claim C4, as the code has it. The client who owns the parent project of a task sends
  an update that sets \<^verbatim>\<open>status\<close> to \<open>s\<close> and \<^verbatim>\<open>assignee_id\<close> to \<open>a\<close>. When \<open>s\<close> is
  \<^verbatim>\<open>null\<close> or a text free of the character NUL and \<open>a\<close> is \<^verbatim>\<open>null\<close> or the id of a user,
  the update succeeds and writes both values to the task, whatever the status and the
  assignee of the task were: no test of the claim precondition stands on this path. For
  every other \<open>s\<close> and \<open>a\<close> the update fails and the store is the old one.
\<close>

theorem update_task_sets_assignee_and_status:
  assumes "db_ok d" and "db_typed d" and "t \<in> set (tasks d)"
    and "q \<in> set (projects d)" and "project.id' q = task.project_id t"
    and "role c = ''client''" and "project.client_id q = user.id' c"
  shows "update_task d c (task.id' t)
           (TaskUpdate_unset\<lparr>TaskUpdate.status := Some s, TaskUpdate.assignee_id := Some a\<rparr>) =
         (if \<not> column_ok text_ok s then (d, Inl DBAPIError)
          else if \<not> set_option a \<subseteq> user_ids d then (d, Inl IntegrityError)
          else
            (d\<lparr>tasks := map (\<lambda>x. if task.id' x = task.id' t
                                   then t\<lparr>task.status := s, task.assignee_id := a\<rparr>
                                   else x) (tasks d)\<rparr>,
             Inr (t\<lparr>task.status := s, task.assignee_id := a\<rparr>)))"
proof -
  let ?u = "TaskUpdate_unset\<lparr>TaskUpdate.status := Some s, TaskUpdate.assignee_id := Some a\<rparr>"
  have pat: "task_patched ?u t = t\<lparr>task.status := s, task.assignee_id := a\<rparr>"
    by (simp add: task_patched_def TaskUpdate_unset_def overwrite_def)
  have "task_row_ok d t" and "task_types_ok t"
    using assms(1,2,3) by (auto intro: task_row_ok_in task_types_ok_in)
  then have ty: "task_sets_ok t (task_patched ?u t) \<longleftrightarrow> column_ok text_ok s"
    and ok: "task_row_ok d (task_patched ?u t) \<longleftrightarrow> set_option a \<subseteq> user_ids d"
    by (simp_all add: task_sets_ok_patched task_row_ok_patched TaskUpdate_typed_def
        TaskUpdate_unset_def column_ok_member)
  have "update_task d c (task.id' t) ?u =
           (if \<not> task_sets_ok t (task_patched ?u t) then (d, Inl DBAPIError)
            else if \<not> task_row_ok d (task_patched ?u t) then (d, Inl IntegrityError)
            else
              (d\<lparr>tasks := map (\<lambda>x. if task.id' x = task.id' t
                                     then task_patched ?u t else x) (tasks d)\<rparr>,
               Inr (task_patched ?u t)))"
    using assms(1,3-7) by (intro update_task_authorised [where q = q]) simp_all
  with ty ok show ?thesis by (simp add: pat)
qed

text \<open>
  Task 21 is assigned to bob; its owner alice sets it back to \<^verbatim>\<open>"open"\<close> and hands it
  to dave in one update.
\<close>

theorem update_task_sets_assignee_and_status_witness:
  "task.status task_taken = Some ''assigned'' \<and> task.assignee_id task_taken = Some 2 \<and>
   update_task store0 alice 21
     (TaskUpdate_unset\<lparr>TaskUpdate.status := Some (Some ''open''),
                       TaskUpdate.assignee_id := Some (Some 4)\<rparr>) =
     (store0\<lparr>tasks :=
        [task_open, task_taken\<lparr>task.status := Some ''open'', task.assignee_id := Some 4\<rparr>,
         task_other]\<rparr>,
      Inr (task_taken\<lparr>task.status := Some ''open'', task.assignee_id := Some 4\<rparr>))"
  using update_task_sets_assignee_and_status
    [OF store0_ok store0_typed, where t = task_taken and q = project_a and c = alice
       and a = "Some 4" and s = "Some ''open''"]
  by (simp add: sample_defs user_ids_def text_ok_def)

text \<open>
  Claim C4 as stated (a value for \<^verbatim>\<open>assignee_id\<close> is accepted and written) fails: alice
  sends the id 99, which no user has, for the assignee of her task 21; the commit
  raises \<^verbatim>\<open>IntegrityError\<close> on the foreign key and the task keeps its status and its
  assignee.
\<close>

theorem update_task_unknown_assignee_counterexample:
  "task_taken \<in> set (tasks store0) \<and> task.id' task_taken = 21 \<and>
   task.project_id task_taken = project.id' project_a \<and>
   project.client_id project_a = user.id' alice \<and> role alice = ''client'' \<and>
   99 \<notin> user_ids store0 \<and>
   update_task store0 alice 21
     (TaskUpdate_unset\<lparr>TaskUpdate.status := Some (Some ''open''),
                       TaskUpdate.assignee_id := Some (Some 99)\<rparr>) =
     (store0, Inl IntegrityError)"
  by (simp add: sample_defs update_task_def select_task_def task_project_def
      TaskUpdate_dict_def item_def commit_def task_row_ok_def task_sets_ok_def sets_ok_def
      text_ok_def TaskUpdate_unset_def user_ids_def project_ids_def)

section \<open>Creating a task and reading it back\<close>

lemma find_key_appended:
  "i \<notin> set (map f xs) \<Longrightarrow> f x = i \<Longrightarrow> find (\<lambda>y. f y = i) (xs @ [x]) = Some x"
  by (induction xs) auto

text \<open>
  The row that \<^verbatim>\<open>create_task\<close> inserts for a request body, field by field: the value
  sent, or the default of the schema or of the column.
\<close>

lemma Task_init_of_body:
  "Task_init (TaskCreate_of_body b) new_id =
     \<lparr> task.id' = new_id,
       task.project_id = TaskCreate_body.project_id b,
       task.title = Some (TaskCreate_body.title b),
       task.description = Some (TaskCreate_body.description b),
       task.weight = Some (case TaskCreate_body.weight b of None \<Rightarrow> 1 | Some v \<Rightarrow> v),
       task.assignee_id = None,
       task.status = Some ''open'',
       task.payout = Some (TaskCreate_body.payout b),
       task.deadline = (case TaskCreate_body.deadline b of None \<Rightarrow> None | Some v \<Rightarrow> v),
       task.pricing_type =
         Some (case TaskCreate_body.pricing_type b of None \<Rightarrow> ''fixed'' | Some v \<Rightarrow> v),
       task.hourly_rate =
         (case TaskCreate_body.hourly_rate b of None \<Rightarrow> None | Some v \<Rightarrow> v),
       task.estimated_hours =
         (case TaskCreate_body.estimated_hours b of None \<Rightarrow> None | Some v \<Rightarrow> v),
       task.required_skills =
         (case TaskCreate_body.required_skills b of
            None \<Rightarrow> Some [] | Some None \<Rightarrow> Some [] | Some (Some l) \<Rightarrow> Some l),
       task.auto_assign =
         Some (case TaskCreate_body.auto_assign b of None \<Rightarrow> False | Some v \<Rightarrow> v),
       task.application_window_minutes =
         Some (case TaskCreate_body.application_window_minutes b of
                 None \<Rightarrow> 60 | Some v \<Rightarrow> v) \<rparr>"
proof -
  have "column_default [] (field_default (Some []) (TaskCreate_body.required_skills b)) =
        (case TaskCreate_body.required_skills b of
            None \<Rightarrow> Some [] | Some None \<Rightarrow> Some [] | Some (Some l) \<Rightarrow> Some l)"
    by (simp add: column_default_def field_default_def split: option.splits)
  then show ?thesis
    by (simp add: Task_init_def TaskCreate_of_body_def)
      (simp add: column_default_def field_default_def)
qed

lemma task_types_ok_init:
  "task_types_ok (Task_init task_data new_id) \<longleftrightarrow> TaskCreate_typed task_data"
proof -
  have "column_ok (list_all text_ok) (column_default [] v) \<longleftrightarrow> column_ok (list_all text_ok) v"
    for v :: "string list option"
    by (cases v) (simp_all add: column_default_def)
  moreover have "column_default x (Some y) = Some y" for x y :: 'a
    by (simp add: column_default_def)
  moreover have "text_ok ''open''"
    by (simp add: text_ok_def)
  ultimately show ?thesis
    by (simp add: task_types_ok_def Task_init_def TaskCreate_typed_def column_default_def)
qed

lemma create_task_owner:
  assumes "db_ok d" and "p \<in> set (projects d)" and "project.client_id p = user.id' c"
    and "TaskCreate.project_id task_data = project.id' p"
    and "new_id \<notin> set (map task.id' (tasks d))"
  shows "create_task d c task_data new_id =
           (if \<not> TaskCreate_typed task_data then (d, Inl DBAPIError)
            else
              (d\<lparr>tasks := tasks d @ [Task_init task_data new_id]\<rparr>,
               Inr (Task_init task_data new_id)))"
proof -
  let ?t = "Task_init task_data new_id"
  have id: "task.id' ?t = new_id" by (simp add: Task_init_def)
  have sel: "select_project d (TaskCreate.project_id task_data) = [p]"
    using assms(1,2,4) by (simp add: select_project_unique)
  have ok: "task_row_ok d ?t"
    using assms(2,4) by (auto simp: task_row_ok_def Task_init_def project_ids_def)
  have com: "commit d [Insert_task ?t] =
               (if \<not> TaskCreate_typed task_data then Inl DBAPIError
                else Inr (d\<lparr>tasks := tasks d @ [?t]\<rparr>))"
    using ok assms(5) by (simp add: commit_def id task_types_ok_init)
  have ref: "refresh_task (d\<lparr>tasks := tasks d @ [?t]\<rparr>) ?t = Inr ?t"
    using assms(5) by (simp add: refresh_task_def id find_key_appended)
  show ?thesis
    unfolding create_task_def Let_def using assms(3) sel com ref by simp
qed

lemma get_task_created:
  assumes "db_ok d" and "p \<in> set (projects d)" and "project.client_id p = user.id' c"
    and "task.project_id t = project.id' p" and "task.status t = Some ''open''"
    and "task.id' t \<notin> set (map task.id' (tasks d))"
  shows "get_task (d\<lparr>tasks := tasks d @ [t]\<rparr>) c (task.id' t) = Inr t"
proof -
  have "filter (\<lambda>x. task.id' x = task.id' t) (tasks d) = []"
    using assms(6) by (rule filter_key_absent)
  then have sel: "select_task (d\<lparr>tasks := tasks d @ [t]\<rparr>) (task.id' t) = [t]"
    by (simp add: select_task_def)
  from assms(1) have "distinct (map project.id' (projects d))" by (simp add: db_ok_def)
  from find_key_unique [OF this assms(2)] assms(4)
  have proj: "task_project (d\<lparr>tasks := tasks d @ [t]\<rparr>) t = Some p"
    by (simp add: task_project_def)
  show ?thesis
    unfolding get_task_def using sel proj assms(3,5) by simp
qed

text \<open>
  Claim C9, as the code has it. The owner of a project creates a task in it, with an id
  that no task of the store has. When every value of the request fits its column (the
  texts \<^verbatim>\<open>title\<close>, \<^verbatim>\<open>description\<close>, \<^verbatim>\<open>pricing_type\<close> and the required skills free of
  the character NUL; \<^verbatim>\<open>weight\<close>, \<^verbatim>\<open>estimated_hours\<close> and
  \<^verbatim>\<open>application_window_minutes\<close> 32-bit integers; the \<^verbatim>\<open>deadline\<close> an instant of the
  years 1 to 9999), the creation succeeds and appends
  one row, and reading that id back as the same actor returns the same task. Each field
  of the task is the value the request supplied; a field the request left out has its
  default (\<^verbatim>\<open>weight\<close> 1, \<^verbatim>\<open>pricing_type\<close> "fixed", \<^verbatim>\<open>required_skills\<close> [],
  \<^verbatim>\<open>auto_assign\<close> false, \<^verbatim>\<open>application_window_minutes\<close> 60, the others
  \<^verbatim>\<open>null\<close>); \<^verbatim>\<open>status\<close> is "open" and \<^verbatim>\<open>assignee_id\<close> is \<^verbatim>\<open>null\<close>. The one
  exception: \<^verbatim>\<open>required_skills\<close> supplied as \<^verbatim>\<open>null\<close> comes back as the empty list,
  the default of the column. When a value does not fit its column the creation fails
  with \<^verbatim>\<open>DBAPIError\<close> and no row is stored.
\<close>

theorem create_task_then_get_task:
  assumes "db_ok d" and "p \<in> set (projects d)" and "project.client_id p = user.id' c"
    and "TaskCreate_body.project_id b = project.id' p"
    and "new_id \<notin> set (map task.id' (tasks d))"
  shows "if TaskCreate_typed (TaskCreate_of_body b) then
           (\<exists>d' t. create_task d c (TaskCreate_of_body b) new_id = (d', Inr t) \<and>
             d' = d\<lparr>tasks := tasks d @ [t]\<rparr> \<and>
             get_task d' c new_id = Inr t \<and>
             t = \<lparr> task.id' = new_id,
                 task.project_id = project.id' p,
                 task.title = Some (TaskCreate_body.title b),
                 task.description = Some (TaskCreate_body.description b),
                 task.weight =
                   Some (case TaskCreate_body.weight b of None \<Rightarrow> 1 | Some v \<Rightarrow> v),
                 task.assignee_id = None,
                 task.status = Some ''open'',
                 task.payout = Some (TaskCreate_body.payout b),
                 task.deadline =
                   (case TaskCreate_body.deadline b of None \<Rightarrow> None | Some v \<Rightarrow> v),
                 task.pricing_type =
                   Some (case TaskCreate_body.pricing_type b of
                           None \<Rightarrow> ''fixed'' | Some v \<Rightarrow> v),
                 task.hourly_rate =
                   (case TaskCreate_body.hourly_rate b of None \<Rightarrow> None | Some v \<Rightarrow> v),
                 task.estimated_hours =
                   (case TaskCreate_body.estimated_hours b of None \<Rightarrow> None | Some v \<Rightarrow> v),
                 task.required_skills =
                   (case TaskCreate_body.required_skills b of
                      None \<Rightarrow> Some [] | Some None \<Rightarrow> Some [] | Some (Some l) \<Rightarrow> Some l),
                 task.auto_assign =
                   Some (case TaskCreate_body.auto_assign b of None \<Rightarrow> False | Some v \<Rightarrow> v),
                 task.application_window_minutes =
                   Some (case TaskCreate_body.application_window_minutes b of
                           None \<Rightarrow> 60 | Some v \<Rightarrow> v) \<rparr>)
         else create_task d c (TaskCreate_of_body b) new_id = (d, Inl DBAPIError)"
proof -
  let ?t = "Task_init (TaskCreate_of_body b) new_id"
  have pid: "TaskCreate.project_id (TaskCreate_of_body b) = project.id' p"
    using assms(4) by (simp add: TaskCreate_of_body_def)
  have cr: "create_task d c (TaskCreate_of_body b) new_id =
              (if \<not> TaskCreate_typed (TaskCreate_of_body b) then (d, Inl DBAPIError)
               else (d\<lparr>tasks := tasks d @ [?t]\<rparr>, Inr ?t))"
    using assms(1,2,3) pid assms(5) by (rule create_task_owner)
  have "task.id' ?t = new_id" "task.project_id ?t = project.id' p"
    "task.status ?t = Some ''open''"
    using pid by (simp_all add: Task_init_def column_default_def)
  with assms have gt: "get_task (d\<lparr>tasks := tasks d @ [?t]\<rparr>) c new_id = Inr ?t"
    using get_task_created [of d p c ?t] by simp
  have "?t = \<lparr> task.id' = new_id,
                 task.project_id = project.id' p,
                 task.title = Some (TaskCreate_body.title b),
                 task.description = Some (TaskCreate_body.description b),
                 task.weight =
                   Some (case TaskCreate_body.weight b of None \<Rightarrow> 1 | Some v \<Rightarrow> v),
                 task.assignee_id = None,
                 task.status = Some ''open'',
                 task.payout = Some (TaskCreate_body.payout b),
                 task.deadline =
                   (case TaskCreate_body.deadline b of None \<Rightarrow> None | Some v \<Rightarrow> v),
                 task.pricing_type =
                   Some (case TaskCreate_body.pricing_type b of
                           None \<Rightarrow> ''fixed'' | Some v \<Rightarrow> v),
                 task.hourly_rate =
                   (case TaskCreate_body.hourly_rate b of None \<Rightarrow> None | Some v \<Rightarrow> v),
                 task.estimated_hours =
                   (case TaskCreate_body.estimated_hours b of None \<Rightarrow> None | Some v \<Rightarrow> v),
                 task.required_skills =
                   (case TaskCreate_body.required_skills b of
                      None \<Rightarrow> Some [] | Some None \<Rightarrow> Some [] | Some (Some l) \<Rightarrow> Some l),
                 task.auto_assign =
                   Some (case TaskCreate_body.auto_assign b of None \<Rightarrow> False | Some v \<Rightarrow> v),
                 task.application_window_minutes =
                   Some (case TaskCreate_body.application_window_minutes b of
                           None \<Rightarrow> 60 | Some v \<Rightarrow> v) \<rparr>"
    using assms(4) by (simp add: Task_init_of_body)
  with cr gt show ?thesis by simp
qed

text \<open>
  alice creates a task in her project 10 from the required fields alone and gets the
  defaults; a body that sets every field comes back as sent; a body whose weight is
  2147483648 is refused and stores nothing.
\<close>

theorem create_task_then_get_task_witness:
  "create_task store0 alice (TaskCreate_of_body body_min) 23 =
     (store0\<lparr>tasks := tasks store0 @
        [\<lparr> task.id' = 23, task.project_id = 10, task.title = Some ''banner'',
           task.description = Some ''make a banner'', task.weight = Some 1,
           task.assignee_id = None, task.status = Some ''open'', task.payout = Some 12,
           task.deadline = None, task.pricing_type = Some ''fixed'', task.hourly_rate = None,
           task.estimated_hours = None, task.required_skills = Some [],
           task.auto_assign = Some False, task.application_window_minutes = Some 60 \<rparr>]\<rparr>,
      Inr \<lparr> task.id' = 23, task.project_id = 10, task.title = Some ''banner'',
           task.description = Some ''make a banner'', task.weight = Some 1,
           task.assignee_id = None, task.status = Some ''open'', task.payout = Some 12,
           task.deadline = None, task.pricing_type = Some ''fixed'', task.hourly_rate = None,
           task.estimated_hours = None, task.required_skills = Some [],
           task.auto_assign = Some False, task.application_window_minutes = Some 60 \<rparr>) \<and>
   get_task (fst (create_task store0 alice (TaskCreate_of_body body_full) 24)) alice 24 =
     Inr \<lparr> task.id' = 24, task.project_id = 10, task.title = Some ''video'',
           task.description = Some ''cut the video'', task.weight = Some 3,
           task.assignee_id = None, task.status = Some ''open'', task.payout = Some 40,
           task.deadline = Some 63934358400000000, task.pricing_type = Some ''hourly'',
           task.hourly_rate = Some 8, task.estimated_hours = Some 5,
           task.required_skills = Some [''editing''], task.auto_assign = Some True,
           task.application_window_minutes = Some 15 \<rparr> \<and>
   create_task store0 alice (TaskCreate_of_body body_heavy) 25 = (store0, Inl DBAPIError)"
  using create_task_then_get_task [OF store0_ok, of project_a alice body_min 23]
    create_task_then_get_task [OF store0_ok, of project_a alice body_full 24]
    create_task_then_get_task [OF store0_ok, of project_a alice body_heavy 25]
  by (auto simp: sample_defs body_min_def body_full_def body_heavy_def TaskCreate_typed_def
      TaskCreate_of_body_def field_default_def text_ok_def int32_ok_def datetime_ok_def)

text \<open>
  Claim C9 as stated (every field equal to the value supplied) fails: alice sends
  \<^verbatim>\<open>"required_skills": null\<close>, and the task read back has \<^verbatim>\<open>required_skills\<close> [].
\<close>

theorem create_task_null_skills_counterexample:
  "TaskCreate_body.required_skills body_null_skills = Some None \<and>
   TaskCreate.required_skills (TaskCreate_of_body body_null_skills) = None \<and>
   (case get_task (fst (create_task store0 alice (TaskCreate_of_body body_null_skills) 23))
           alice 23 of
      Inl e \<Rightarrow> False
    | Inr t \<Rightarrow> task.required_skills t = Some [] \<and>
               task.required_skills t \<noteq>
                 TaskCreate.required_skills (TaskCreate_of_body body_null_skills))"
  by (simp add: sample_defs body_min_def body_null_skills_def TaskCreate_of_body_def
      field_default_def create_task_def select_project_def commit_def task_row_ok_def
      project_ids_def Task_init_def column_default_def refresh_task_def get_task_def
      select_task_def task_project_def Let_def task_types_ok_def text_ok_def int32_ok_def
      datetime_ok_def)

end
